theory Spec2Isabelle
  imports Complex_Main "HOL-Library.Word" "HOL-Library.Multiset"
begin

unbundle bit_operations_syntax

section \<open>Python values, exceptions and files\<close>

text \<open>
  The exceptions the two modules can meet.  Every handler in the source is
  \<^verbatim>\<open>except Exception\<close>, so the kind never changes the control flow; it is kept
  to document which statement raised.
\<close>

datatype py_error =
  OSError | KeyError | IndexError | ValueError | TypeError | AttributeError | UnboundLocalError

definition py_bind :: "py_error + 'a \<Rightarrow> ('a \<Rightarrow> py_error + 'b) \<Rightarrow> py_error + 'b" where
  "py_bind m f = (case m of Inl e \<Rightarrow> Inl e | Inr x \<Rightarrow> f x)"

type_synonym byte = "8 word"

text \<open>
  A file on disk: \<open>readable\<close> is False when \<^verbatim>\<open>open(path, 'rb')\<close> raises,
  \<open>contents\<close> are its bytes.
\<close>

record lemi_file =
  readable :: bool
  contents :: "byte list"

text \<open>Python floats are idealised as real numbers throughout.\<close>

type_synonym coeffs = "string \<rightharpoonup> real"

definition getcoef :: "coeffs \<Rightarrow> string \<Rightarrow> py_error + real" where
  "getcoef c k = (case c k of None \<Rightarrow> Inl KeyError | Some v \<Rightarrow> Inr v)"

section \<open>The 30-byte record (\<^verbatim>\<open>binary_format\<close> in \<^verbatim>\<open>Read_Lemi_Data._from_binary\<close>)\<close>

text \<open>
  The numpy dtype is packed (no alignment), in native byte order, which is
  little-endian on the platforms the reader runs on.  Signed fields are kept as
  words and read with \<open>sint\<close>.
\<close>

record raw_record =
  time :: "32 word"
  tick :: "16 word"
  Bx :: "32 word"
  By :: "32 word"
  Bz :: "32 word"
  Ex :: "32 word"
  Ey :: "32 word"
  sync :: "8 word"
  stage :: "8 word"
  CRC :: "16 word"

fun le_word :: "byte list \<Rightarrow> 'a::len word" where
  "le_word [] = 0"
| "le_word (b # bs) = ucast b OR push_bit 8 (le_word bs)"

fun le_bytes :: "nat \<Rightarrow> 'a::len word \<Rightarrow> byte list" where
  "le_bytes 0 w = []"
| "le_bytes (Suc n) w = ucast w # le_bytes n (drop_bit 8 w)"

definition field :: "nat \<Rightarrow> nat \<Rightarrow> byte list \<Rightarrow> byte list" where
  "field off n bs = take n (drop off bs)"

definition decode_record :: "byte list \<Rightarrow> raw_record" where
  "decode_record bs =
     \<lparr> time = le_word (field 0 4 bs),
       tick = le_word (field 4 2 bs),
       Bx = le_word (field 6 4 bs),
       By = le_word (field 10 4 bs),
       Bz = le_word (field 14 4 bs),
       Ex = le_word (field 18 4 bs),
       Ey = le_word (field 22 4 bs),
       sync = le_word (field 26 1 bs),
       stage = le_word (field 27 1 bs),
       CRC = le_word (field 28 2 bs) \<rparr>"

text \<open>
  The source has no encoder.  \<open>encode_record\<close> writes the fields back in the
  layout of the same dtype (what numpy's \<^verbatim>\<open>tobytes\<close> does for one element); it
  is the function the round-trip claim compares against.
\<close>

definition encode_record :: "raw_record \<Rightarrow> byte list" where
  "encode_record r =
     le_bytes 4 (time r) @ le_bytes 2 (tick r) @
     le_bytes 4 (Bx r) @ le_bytes 4 (By r) @ le_bytes 4 (Bz r) @
     le_bytes 4 (Ex r) @ le_bytes 4 (Ey r) @
     le_bytes 1 (sync r) @ le_bytes 1 (stage r) @ le_bytes 2 (CRC r)"

text \<open>
  \<^verbatim>\<open>np.fromfile(f, dtype=binary_format)\<close>: as many whole 30-byte items as the
  remaining bytes hold; a trailing partial item is dropped without an error.
\<close>

function fromfile :: "byte list \<Rightarrow> raw_record list" where
  "fromfile bs =
     (if length bs < 30 then []
      else decode_record (take 30 bs) # fromfile (drop 30 bs))"
  by pat_completeness auto
termination
  by (relation "measure length") auto

declare fromfile.simps [simp del]

section \<open>\<^verbatim>\<open>Read_Lemi_Data\<close>: decoding and calibration\<close>

text \<open>
  Timestamps are counted in milliseconds since the Unix epoch (UTC); pandas keeps
  nanoseconds, and every value here is a whole number of milliseconds.
\<close>

type_synonym timestamp = int

text \<open>
  A row of the DataFrame \<^verbatim>\<open>_from_binary\<close> returns: the \<^verbatim>\<open>time\<close> column has
  become the index, the five channels are floats, the other columns are as decoded.
\<close>

record frame_row =
  index :: timestamp
  tick_col :: "16 word"
  Bx_cal :: real
  By_cal :: real
  Bz_cal :: real
  Ex_cal :: real
  Ey_cal :: real
  sync_col :: "8 word"
  stage_col :: "8 word"
  CRC_col :: "16 word"

type_synonym frame = "frame_row list"

record Read_Lemi_Data =
  data_file :: lemi_file
  data_coefficients :: coeffs
  data :: "frame option"

definition to_datetime_ms :: "32 word \<Rightarrow> 16 word \<Rightarrow> timestamp" where
  "to_datetime_ms s t = uint s * 1000 + uint t"

definition calibrated_row ::
  "real \<Rightarrow> real \<Rightarrow> real \<Rightarrow> real \<Rightarrow> real \<Rightarrow> real \<Rightarrow> real \<Rightarrow> real \<Rightarrow> real \<Rightarrow> real \<Rightarrow>
   raw_record \<Rightarrow> frame_row" where
  "calibrated_row kmx ax kmy ay kmz az ke1 ae1 ke2 ae2 r =
     \<lparr> index = to_datetime_ms (time r) (tick r),
       tick_col = tick r,
       Bx_cal = real_of_int (sint (Bx r)) * kmx + ax,
       By_cal = real_of_int (sint (By r)) * kmy + ay,
       Bz_cal = real_of_int (sint (Bz r)) * kmz + az,
       Ex_cal = real_of_int (sint (Ex r)) * ke1 + ae1,
       Ey_cal = real_of_int (sint (Ey r)) * ke2 + ae2,
       sync_col = sync r,
       stage_col = stage r,
       CRC_col = CRC r \<rparr>"

text \<open>
  The body of the \<^verbatim>\<open>try\<close> block.  The coefficient lookups happen column by
  column in the order of the source, each one raising KeyError when the key is
  absent, whatever the number of rows.
\<close>

definition from_binary_body :: "Read_Lemi_Data \<Rightarrow> py_error + frame" where
  "from_binary_body self =
     (if \<not> readable (data_file self) then Inl OSError
      else let raws = fromfile (drop 1024 (contents (data_file self)));
               c = data_coefficients self
           in py_bind (getcoef c ''Kmx'') (\<lambda>kmx.
              py_bind (getcoef c ''Ax'') (\<lambda>ax.
              py_bind (getcoef c ''Kmy'') (\<lambda>kmy.
              py_bind (getcoef c ''Ay'') (\<lambda>ay.
              py_bind (getcoef c ''Kmz'') (\<lambda>kmz.
              py_bind (getcoef c ''Az'') (\<lambda>az.
              py_bind (getcoef c ''Ke1'') (\<lambda>ke1.
              py_bind (getcoef c ''Ae1'') (\<lambda>ae1.
              py_bind (getcoef c ''Ke2'') (\<lambda>ke2.
              py_bind (getcoef c ''Ae2'') (\<lambda>ae2.
                Inr (map (calibrated_row kmx ax kmy ay kmz az ke1 ae1 ke2 ae2) raws))))))))))))"

text \<open>
  \<^verbatim>\<open>_from_binary\<close>: the result and the object afterwards.  \<^verbatim>\<open>self.data\<close> is
  assigned as the last statement of the \<^verbatim>\<open>try\<close> block; the handler returns None.
\<close>

definition from_binary :: "Read_Lemi_Data \<Rightarrow> frame option \<times> Read_Lemi_Data" where
  "from_binary self =
     (case from_binary_body self of
        Inl e \<Rightarrow> (None, self)
      | Inr df \<Rightarrow> (Some df, self\<lparr>data := Some df\<rparr>))"

definition get_data :: "Read_Lemi_Data \<Rightarrow> frame option" where
  "get_data self = data self"

definition required_keys :: "string list" where
  "required_keys = [''Kmx'', ''Ax'', ''Kmy'', ''Ay'', ''Kmz'', ''Az'', ''Ke1'', ''Ae1'', ''Ke2'', ''Ae2'']"


section \<open>Python string operations used by the header parser\<close>

text \<open>
  A Python \<^verbatim>\<open>str\<close> is modelled as a \<open>string\<close> of 8-bit characters.  The header is
  ASCII; \<^verbatim>\<open>bytes.decode(errors='ignore')\<close> is modelled on that fragment, where it
  keeps every byte below 128 and leaves out the others (a header holding a valid
  multi-byte UTF-8 sequence is outside the model).
\<close>

definition decode_ignore :: "byte list \<Rightarrow> string" where
  "decode_ignore bs = map (\<lambda>b. char_of (uint b)) (filter (\<lambda>b. b < 128) bs)"

definition is_linebreak :: "char \<Rightarrow> bool" where
  "is_linebreak c =
     (c \<in> set [CHR 0x0A, CHR 0x0B, CHR 0x0C, CHR 0x0D, CHR 0x1C, CHR 0x1D, CHR 0x1E])"

text \<open>\<^verbatim>\<open>str.splitlines()\<close>: CR LF counts as one break; no empty last line.\<close>

fun splitlines_from :: "string \<Rightarrow> string \<Rightarrow> string list" where
  "splitlines_from cur [] = (if cur = [] then [] else [rev cur])"
| "splitlines_from cur [c] =
     (if is_linebreak c then [rev cur] else [rev (c # cur)])"
| "splitlines_from cur (c # d # cs) =
     (if c = CHR 0x0D \<and> d = CHR 0x0A then rev cur # splitlines_from [] cs
      else if is_linebreak c then rev cur # splitlines_from [] (d # cs)
      else splitlines_from (c # cur) (d # cs))"

definition splitlines :: "string \<Rightarrow> string list" where
  "splitlines s = splitlines_from [] s"

definition is_space :: "char \<Rightarrow> bool" where
  "is_space c =
     (c \<in> set [CHR 0x09, CHR 0x0A, CHR 0x0B, CHR 0x0C, CHR 0x0D,
                CHR 0x1C, CHR 0x1D, CHR 0x1E, CHR 0x1F, CHR 0x20])"

text \<open>\<^verbatim>\<open>str.split()\<close> without a separator: runs of whitespace separate, no empty item.\<close>

fun split_ws_from :: "string \<Rightarrow> string \<Rightarrow> string list" where
  "split_ws_from cur [] = (if cur = [] then [] else [rev cur])"
| "split_ws_from cur (c # cs) =
     (if is_space c then (if cur = [] then split_ws_from [] cs else rev cur # split_ws_from [] cs)
      else split_ws_from (c # cur) cs)"

definition split_ws :: "string \<Rightarrow> string list" where
  "split_ws s = split_ws_from [] s"

text \<open>\<^verbatim>\<open>str.split(sep)\<close> for a one-character separator: empty items are kept.\<close>

fun split_on :: "char \<Rightarrow> string \<Rightarrow> string list" where
  "split_on sep [] = [[]]"
| "split_on sep (c # cs) =
     (if c = sep then [] # split_on sep cs
      else (case split_on sep cs of [] \<Rightarrow> [[c]] | t # ts \<Rightarrow> (c # t) # ts))"

definition strip :: "string \<Rightarrow> string" where
  "strip s = rev (dropWhile is_space (rev (dropWhile is_space s)))"

definition lstrip_chr :: "char \<Rightarrow> string \<Rightarrow> string" where
  "lstrip_chr c s = dropWhile (\<lambda>x. x = c) s"

definition getitem :: "'a list \<Rightarrow> nat \<Rightarrow> py_error + 'a" where
  "getitem xs i = (if i < length xs then Inr (xs ! i) else Inl IndexError)"

definition last_item :: "'a list \<Rightarrow> py_error + 'a" where
  "last_item xs = (if xs = [] then Inl IndexError else Inr (last xs))"

text \<open>Unpacking \<^verbatim>\<open>a, b = xs\<close>: ValueError unless there are exactly two items.\<close>

definition unpack2 :: "'a list \<Rightarrow> py_error + ('a \<times> 'a)" where
  "unpack2 xs = (case xs of [a, b] \<Rightarrow> Inr (a, b) | _ \<Rightarrow> Inl ValueError)"

subsection \<open>\<^verbatim>\<open>int()\<close> and \<^verbatim>\<open>float()\<close> on strings\<close>

definition is_digit :: "char \<Rightarrow> bool" where
  "is_digit c = (c \<in> set ''0123456789'')"

definition digit_val :: "char \<Rightarrow> int" where
  "digit_val c = of_char c - 48"

text \<open>
  A group of decimal digits in which single underscores may stand between digits;
  the result is the digits alone.
\<close>

fun digit_group :: "string \<Rightarrow> string option" where
  "digit_group [] = None"
| "digit_group [c] = (if is_digit c then Some [c] else None)"
| "digit_group (c # d # cs) =
     (if \<not> is_digit c then None
      else if d = CHR ''_'' then map_option (Cons c) (digit_group cs)
      else map_option (Cons c) (digit_group (d # cs)))"

definition int_of_digits :: "string \<Rightarrow> int" where
  "int_of_digits ds = foldl (\<lambda>a c. 10 * a + digit_val c) 0 ds"

definition signed_digits :: "string \<Rightarrow> py_error + int" where
  "signed_digits t =
     (case t of
        [] \<Rightarrow> Inl ValueError
      | c # cs \<Rightarrow>
          (if c = CHR ''-'' then
             (case digit_group cs of None \<Rightarrow> Inl ValueError
              | Some ds \<Rightarrow> Inr (- int_of_digits ds))
           else if c = CHR ''+'' then
             (case digit_group cs of None \<Rightarrow> Inl ValueError
              | Some ds \<Rightarrow> Inr (int_of_digits ds))
           else
             (case digit_group t of None \<Rightarrow> Inl ValueError
              | Some ds \<Rightarrow> Inr (int_of_digits ds))))"

definition py_int :: "string \<Rightarrow> py_error + int" where
  "py_int s = signed_digits (strip s)"

text \<open>
  \<^verbatim>\<open>float()\<close> on decimal literals, with an optional fraction and exponent.  The
  value is the real number written; rounding to a binary float and the
  non-finite literals (\<^verbatim>\<open>inf\<close>, \<^verbatim>\<open>nan\<close>) are not represented.
\<close>

definition decimal_value :: "string \<Rightarrow> string \<Rightarrow> real" where
  "decimal_value ds fs =
     real_of_int (int_of_digits ds) + real_of_int (int_of_digits fs) / 10 ^ length fs"

definition optional_group :: "string \<Rightarrow> string option" where
  "optional_group s = (case s of [] \<Rightarrow> Some [] | _ \<Rightarrow> digit_group s)"

text \<open>The digits before and after the point: one side may be empty, not both.\<close>

definition fraction :: "string \<Rightarrow> string \<Rightarrow> py_error + real" where
  "fraction ip fp =
     (case (optional_group ip, optional_group fp) of
        (Some ds, Some fs) \<Rightarrow>
          (case ds @ fs of [] \<Rightarrow> Inl ValueError | _ \<Rightarrow> Inr (decimal_value ds fs))
      | _ \<Rightarrow> Inl ValueError)"

definition mantissa :: "string \<Rightarrow> py_error + real" where
  "mantissa m =
     (case dropWhile (\<lambda>c. c \<noteq> CHR ''.'') m of
        [] \<Rightarrow>
          (case digit_group m of None \<Rightarrow> Inl ValueError
           | Some ds \<Rightarrow> Inr (decimal_value ds []))
      | dot # fp \<Rightarrow> fraction (takeWhile (\<lambda>c. c \<noteq> CHR ''.'') m) fp)"

definition scale10 :: "real \<Rightarrow> int \<Rightarrow> real" where
  "scale10 v e = (if 0 \<le> e then v * 10 ^ nat e else v / 10 ^ nat (- e))"

definition unsigned_float :: "string \<Rightarrow> py_error + real" where
  "unsigned_float u =
     (case dropWhile (\<lambda>c. c \<noteq> CHR ''e'' \<and> c \<noteq> CHR ''E'') u of
        [] \<Rightarrow> mantissa u
      | e # ex \<Rightarrow>
          py_bind (mantissa (takeWhile (\<lambda>c. c \<noteq> CHR ''e'' \<and> c \<noteq> CHR ''E'') u)) (\<lambda>v.
          py_bind (signed_digits ex) (\<lambda>x. Inr (scale10 v x))))"

definition py_float :: "string \<Rightarrow> py_error + real" where
  "py_float s =
     (case strip s of
        [] \<Rightarrow> Inl ValueError
      | c # cs \<Rightarrow>
          (if c = CHR ''-'' then py_bind (unsigned_float cs) (\<lambda>v. Inr (- v))
           else if c = CHR ''+'' then unsigned_float cs
           else unsigned_float (c # cs)))"

subsection \<open>\<^verbatim>\<open>pd.to_datetime\<close> with the format \<^verbatim>\<open>%Y/%m/%d %H:%M:%S\<close>\<close>

text \<open>
  A naive civil time.  The year has four digits, the other fields one or two; the
  date must exist.  The bounds of the pandas Timestamp type are not modelled.
\<close>

datatype datetime = DateTime int int int int int int

definition plain_digits :: "nat \<Rightarrow> nat \<Rightarrow> string \<Rightarrow> py_error + int" where
  "plain_digits lo hi s =
     (if lo \<le> length s \<and> length s \<le> hi \<and> list_all is_digit s then Inr (int_of_digits s)
      else Inl ValueError)"

definition days_in_month :: "int \<Rightarrow> int \<Rightarrow> int" where
  "days_in_month y m =
     (if m = 2 then (if y mod 4 = 0 \<and> (y mod 100 \<noteq> 0 \<or> y mod 400 = 0) then 29 else 28)
      else if m = 4 \<or> m = 6 \<or> m = 9 \<or> m = 11 then 30 else 31)"

definition to_datetime :: "string \<Rightarrow> string \<Rightarrow> py_error + datetime" where
  "to_datetime date tm =
     (case split_on CHR ''/'' date of
        [ys, ms, ds] \<Rightarrow>
          (case split_on CHR '':'' tm of
             [hs, mins, ss] \<Rightarrow>
               py_bind (plain_digits 4 4 ys) (\<lambda>y.
               py_bind (plain_digits 1 2 ms) (\<lambda>m.
               py_bind (plain_digits 1 2 ds) (\<lambda>d.
               py_bind (plain_digits 1 2 hs) (\<lambda>h.
               py_bind (plain_digits 1 2 mins) (\<lambda>mi.
               py_bind (plain_digits 1 2 ss) (\<lambda>sec.
                 if 1 \<le> m \<and> m \<le> 12 \<and> 1 \<le> d \<and> d \<le> days_in_month y m
                    \<and> h \<le> 23 \<and> mi \<le> 59 \<and> sec \<le> 59
                 then Inr (DateTime y m d h mi sec) else Inl ValueError))))))
           | _ \<Rightarrow> Inl ValueError)
      | _ \<Rightarrow> Inl ValueError)"


section \<open>\<^verbatim>\<open>Read_Lemi_Header\<close>\<close>

text \<open>
  The values a metadata dictionary holds.  \<open>PyGeo\<close> stands for the \<^verbatim>\<open>geo_site\<close>
  string, which prints the two coordinates with six decimals.  \<open>PyDict\<close> is the
  dictionary of coefficients, kept as its items with the latest first, so that
  \<open>map_of\<close> is the lookup.
\<close>

datatype pyval =
    PyNone
  | PyInt int
  | PyFloat real
  | PyTime datetime
  | PyGeo real real
  | PyDict "(string \<times> real) list"

type_synonym dict = "string \<rightharpoonup> pyval"

text \<open>
  \<^verbatim>\<open>_read_header\<close>: the first 1024 bytes as lines; the empty list when the file
  cannot be opened.
\<close>

definition read_header :: "lemi_file \<Rightarrow> string list" where
  "read_header f =
     (if readable f then splitlines (decode_ignore (take 1024 (contents f))) else [])"

text \<open>
  The four \<^verbatim>\<open>_extract_*\<close> methods store what they find in attributes of the
  reader, which \<^verbatim>\<open>read\<close> then copies into the dictionary it returns.  The
  attributes are not read anywhere else, so each method is modelled by the value
  it stores, or the exception it raises.
\<close>

definition extract_instrument_number :: "string list \<Rightarrow> py_error + int option" where
  "extract_instrument_number header =
     py_bind (getitem header 0) (\<lambda>h0.
       if CHR ''#'' \<in> set h0
       then py_bind (last_item (split_on CHR ''#'' h0)) (\<lambda>t.
            py_bind (py_int t) (\<lambda>n. Inr (Some n)))
       else Inr None)"

definition extract_deployment_time :: "string list \<Rightarrow> py_error + datetime" where
  "extract_deployment_time header =
     py_bind (getitem header 4) (\<lambda>l4.
     py_bind (last_item (split_ws l4)) (\<lambda>date.
     py_bind (getitem header 5) (\<lambda>l5.
     py_bind (last_item (split_ws l5)) (\<lambda>tm.
       to_datetime date tm))))"

text \<open>
  The dictionary comprehension of \<^verbatim>\<open>_extract_coefficients\<close>: lines are taken in
  order, so a later line with the same name wins.
\<close>

definition coefficient_name :: "string \<Rightarrow> string" where
  "coefficient_name t = lstrip_chr CHR ''%'' (strip t)"

fun coefficient_lines ::
  "string list \<Rightarrow> (string \<times> real) list \<Rightarrow> py_error + (string \<times> real) list" where
  "coefficient_lines [] acc = Inr acc"
| "coefficient_lines (line # ls) acc =
     (if CHR ''='' \<in> set line
      then py_bind (getitem (split_on CHR ''='' line) 0) (\<lambda>k.
           py_bind (getitem (split_on CHR ''='' line) 1) (\<lambda>t.
           py_bind (py_float t) (\<lambda>v.
             coefficient_lines ls ((coefficient_name k, v) # acc))))
      else coefficient_lines ls acc)"

definition extract_coefficients :: "string list \<Rightarrow> py_error + (string \<times> real) list" where
  "extract_coefficients header = coefficient_lines (drop 13 header) []"

text \<open>
  A coordinate line ends in \<^verbatim>\<open>DDMM.mmmm,H\<close>: \<open>coordinate_fields\<close> is
  \<^verbatim>\<open>line.split()[-1].split(',')\<close> unpacked into two names.
\<close>

definition coordinate_fields :: "string \<Rightarrow> py_error + (string \<times> string)" where
  "coordinate_fields line =
     py_bind (last_item (split_ws line)) (\<lambda>t. unpack2 (split_on CHR '','' t))"

text \<open>
  \<^verbatim>\<open>(int(v[:k]) + float(v[k:]) / 60) * (-1 if dir.strip() == neg else 1)\<close>, with
  \<open>k = 2\<close> and \<open>neg = 'S'\<close> for the latitude, \<open>k = 3\<close> and \<open>neg = 'W'\<close> for
  the longitude.
\<close>

definition decimal_degrees :: "nat \<Rightarrow> string \<Rightarrow> string \<Rightarrow> string \<Rightarrow> py_error + real" where
  "decimal_degrees k neg v dir =
     py_bind (py_int (take k v)) (\<lambda>deg.
     py_bind (py_float (drop k v)) (\<lambda>minutes.
       Inr ((real_of_int deg + minutes / 60) * (if strip dir = neg then - 1 else 1))))"

definition extract_elevation :: "string \<Rightarrow> py_error + real" where
  "extract_elevation line =
     py_bind (getitem (split_on CHR '','' line) 0) (\<lambda>t.
     py_bind (last_item (split_ws t)) py_float)"

definition extract_coordinates :: "string list \<Rightarrow> py_error + (real \<times> real \<times> real)" where
  "extract_coordinates header =
     py_bind (getitem header 9) (\<lambda>l9.
     py_bind (coordinate_fields l9) (\<lambda>lat.
     py_bind (getitem header 10) (\<lambda>l10.
     py_bind (coordinate_fields l10) (\<lambda>lon.
     py_bind (decimal_degrees 2 ''S'' (fst lat) (snd lat)) (\<lambda>latitude.
     py_bind (decimal_degrees 3 ''W'' (fst lon) (snd lon)) (\<lambda>longitude.
     py_bind (getitem header 11) (\<lambda>l11.
     py_bind (extract_elevation l11) (\<lambda>elevation.
       Inr (latitude, longitude, elevation)))))))))"

definition metadata_keys :: "string list" where
  "metadata_keys =
     [''instrument_number'', ''deployment_time'', ''latitude'', ''longitude'',
      ''elevation'', ''geo_site'', ''coefficients'']"

definition instrument_value :: "int option \<Rightarrow> pyval" where
  "instrument_value n = (case n of None \<Rightarrow> PyNone | Some i \<Rightarrow> PyInt i)"

definition metadata ::
  "int option \<Rightarrow> datetime \<Rightarrow> (string \<times> real) list \<Rightarrow> real \<times> real \<times> real \<Rightarrow> dict" where
  "metadata num dt cs pos =
     [''instrument_number'' \<mapsto> instrument_value num,
      ''deployment_time'' \<mapsto> PyTime dt,
      ''latitude'' \<mapsto> PyFloat (fst pos),
      ''longitude'' \<mapsto> PyFloat (fst (snd pos)),
      ''elevation'' \<mapsto> PyFloat (snd (snd pos)),
      ''geo_site'' \<mapsto> PyGeo (fst pos) (fst (snd pos)),
      ''coefficients'' \<mapsto> PyDict cs]"

text \<open>The body of the \<^verbatim>\<open>try\<close> block of \<^verbatim>\<open>read\<close>.\<close>

definition read_body :: "string list \<Rightarrow> py_error + dict" where
  "read_body header =
     py_bind (extract_instrument_number header) (\<lambda>num.
     py_bind (extract_deployment_time header) (\<lambda>dt.
     py_bind (extract_coefficients header) (\<lambda>cs.
     py_bind (extract_coordinates header) (\<lambda>pos.
       Inr (metadata num dt cs pos)))))"

text \<open>
  \<^verbatim>\<open>Read_Lemi_Header.read\<close>: the empty dictionary when there is no header line,
  and when anything in the \<^verbatim>\<open>try\<close> block raises.
\<close>

definition read :: "lemi_file \<Rightarrow> dict" where
  "read f =
     (case read_header f of
        [] \<Rightarrow> Map.empty
      | h # hs \<Rightarrow> (case read_body (h # hs) of Inl e \<Rightarrow> Map.empty | Inr md \<Rightarrow> md))"


section \<open>\<^verbatim>\<open>process_site\<close>\<close>

text \<open>A row of the metadata CSV, as \<^verbatim>\<open>load_metadata\<close> hands it on.\<close>

record site_info =
  SiteName :: string
  ExDipole :: real
  ExAzimuth :: real
  EyDipole :: real
  EyAzimuth :: real

text \<open>
  The base directory: a folder name is mapped to what \<^verbatim>\<open>os.listdir\<close> returns for
  it, each name with its file; a name that is not a folder is not in the domain.
\<close>

type_synonym directory = "string \<rightharpoonup> (string \<times> lemi_file) list"

text \<open>What \<^verbatim>\<open>write_log\<close> is called with in this module.\<close>

datatype log_event =
    HandlingSite string
  | FolderNotFound string
  | NoFilesFound string
  | ProcessingFile string
  | ErrorProcessing string py_error
  | FinishedSite string
  | ErrorInMultiprocessing py_error
  | AllSitesProcessed
  | NoDataLoaded
  | SummaryLogged
  | InvalidCsvPath

datatype pd_time = NaT | Timestamp timestamp

text \<open>A row of a site's table: the index and the four columns kept, with \<^verbatim>\<open>site_id\<close>.\<close>

record site_row =
  row_time :: timestamp
  row_Bx :: real
  row_By :: real
  row_Ex :: real
  row_Ey :: real
  site_id_col :: int

record site_summary =
  site_id :: int
  site_name :: string
  Rx_no :: pyval
  Lat :: real
  Lon :: real
  Alt :: pyval
  Start_Time :: "pd_time option"
  Finish_Time :: "pd_time option"
  Sample_Rate :: "nat option"
  ExDipole_out :: real
  ExAz :: real
  EyDipole_out :: real
  EyAz :: real

definition endswith :: "string \<Rightarrow> string \<Rightarrow> bool" where
  "endswith s suf = (length suf \<le> length s \<and> drop (length s - length suf) s = suf)"

text \<open>\<^verbatim>\<open>int(os.path.basename(x).split('.')[0])\<close>, the sort key of a file.\<close>

definition file_key :: "string \<Rightarrow> py_error + int" where
  "file_key name = py_bind (getitem (split_on CHR ''.'' name) 0) py_int"

text \<open>
  \<^verbatim>\<open>sorted(xs, key=k)\<close>: the key of every item is computed first, and the first
  key that raises ends the call; the sort is stable.
\<close>

fun with_keys :: "('a \<Rightarrow> py_error + int) \<Rightarrow> 'a list \<Rightarrow> py_error + (int \<times> 'a) list" where
  "with_keys k [] = Inr []"
| "with_keys k (x # xs) =
     py_bind (k x) (\<lambda>n. py_bind (with_keys k xs) (\<lambda>r. Inr ((n, x) # r)))"

definition sorted_by :: "('a \<Rightarrow> py_error + int) \<Rightarrow> 'a list \<Rightarrow> py_error + 'a list" where
  "sorted_by k xs = py_bind (with_keys k xs) (\<lambda>r. Inr (map snd (sort_key fst r)))"

definition binary_files :: "(string \<times> lemi_file) list \<Rightarrow> py_error + (string \<times> lemi_file) list" where
  "binary_files entries =
     sorted_by (\<lambda>e. file_key (fst e)) (filter (\<lambda>e. endswith (fst e) ''.B423'') entries)"

text \<open>
  \<^verbatim>\<open>df.index.min()\<close> and \<^verbatim>\<open>df.index.max()\<close>; both are NaT for a table without
  rows.
\<close>

definition index_min :: "frame \<Rightarrow> pd_time" where
  "index_min df = (case df of [] \<Rightarrow> NaT | r # rs \<Rightarrow> Timestamp (fold min (map index rs) (index r)))"

definition index_max :: "frame \<Rightarrow> pd_time" where
  "index_max df = (case df of [] \<Rightarrow> NaT | r # rs \<Rightarrow> Timestamp (fold max (map index rs) (index r)))"

text \<open>
  \<^verbatim>\<open>len(df[df.index < df.index.min() + pd.Timedelta(seconds=1)])\<close>; a comparison
  with NaT is false for every row.
\<close>

definition first_second :: "frame \<Rightarrow> nat" where
  "first_second df =
     (case index_min df of
        NaT \<Rightarrow> 0
      | Timestamp m \<Rightarrow> length (filter (\<lambda>r. index r < m + 1000) df))"

text \<open>
  \<^verbatim>\<open>start_time or df.index.min()\<close>: None is false; a Timestamp and NaT both
  count as true.
\<close>

definition py_or :: "pd_time option \<Rightarrow> pd_time \<Rightarrow> pd_time option" where
  "py_or a b = (case a of None \<Rightarrow> Some b | Some t \<Rightarrow> Some t)"

definition site_rows :: "int \<Rightarrow> frame \<Rightarrow> site_row list" where
  "site_rows sid df =
     map (\<lambda>r. \<lparr> row_time = index r, row_Bx = Bx_cal r, row_By = By_cal r,
                 row_Ex = Ex_cal r, row_Ey = Ey_cal r, site_id_col = sid \<rparr>) df"

text \<open>
  The local variables of \<^verbatim>\<open>process_site\<close> that the loop changes, and the log.
  \<open>header_info\<close> is None until the first assignment.
\<close>

record site_state =
  all_data :: "site_row list list"
  start_time :: "pd_time option"
  finish_time :: "pd_time option"
  sample_rate :: "nat option"
  header_info :: "dict option"
  site_log :: "log_event list"

definition lookup :: "dict \<Rightarrow> string \<Rightarrow> py_error + pyval" where
  "lookup d k = (case d k of None \<Rightarrow> Inl KeyError | Some v \<Rightarrow> Inr v)"

text \<open>
  \<^verbatim>\<open>Read_Lemi_Data(binary_file, coefficients)._from_binary()\<close>.  Indexing a value
  that is not a dictionary raises inside \<^verbatim>\<open>_from_binary\<close>, which then returns None.
\<close>

definition load_data :: "lemi_file \<Rightarrow> pyval \<Rightarrow> frame option" where
  "load_data f c =
     (case c of
        PyDict cs \<Rightarrow>
          fst (from_binary \<lparr> data_file = f, data_coefficients = map_of cs, data = None \<rparr>)
      | _ \<Rightarrow> None)"

text \<open>
  The statements of the \<^verbatim>\<open>try\<close> block after \<^verbatim>\<open>header_info\<close> has been assigned.
  \<^verbatim>\<open>df.index\<close> raises AttributeError when \<^verbatim>\<open>_from_binary\<close> returned None; nothing
  after it can raise.
\<close>

definition file_body :: "int \<Rightarrow> lemi_file \<Rightarrow> dict \<Rightarrow> site_state \<Rightarrow> py_error + site_state" where
  "file_body sid f hdr st =
     py_bind (lookup hdr ''coefficients'') (\<lambda>c.
       case load_data f c of
         None \<Rightarrow> Inl AttributeError
       | Some df \<Rightarrow>
           Inr (st\<lparr> start_time := py_or (start_time st) (index_min df),
                    finish_time := Some (index_max df),
                    sample_rate := (case sample_rate st of
                                      None \<Rightarrow> Some (first_second df)
                                    | Some r \<Rightarrow> Some r),
                    all_data := all_data st @ [site_rows sid df] \<rparr>))"

text \<open>
  One turn of the loop.  The assignment to \<^verbatim>\<open>header_info\<close> survives an exception
  raised later in the same turn; the handler logs and goes on to the next file.
\<close>

definition file_step :: "int \<Rightarrow> string \<times> lemi_file \<Rightarrow> site_state \<Rightarrow> site_state" where
  "file_step sid e st =
     (let st1 = st\<lparr> site_log := site_log st @ [ProcessingFile (fst e)],
                     header_info := Some (read (snd e)) \<rparr>
      in case file_body sid (snd e) (read (snd e)) st1 of
           Inl err \<Rightarrow> st1\<lparr> site_log := site_log st1 @ [ErrorProcessing (fst e) err] \<rparr>
         | Inr st2 \<Rightarrow> st2)"

fun file_loop :: "int \<Rightarrow> (string \<times> lemi_file) list \<Rightarrow> site_state \<Rightarrow> site_state" where
  "file_loop sid [] st = st"
| "file_loop sid (e # es) st = file_loop sid es (file_step sid e st)"

text \<open>
  \<^verbatim>\<open>f"{x:.6f}"\<close> needs a number; the summary keeps the number that is printed.
\<close>

definition format_6f :: "pyval \<Rightarrow> py_error + real" where
  "format_6f v =
     (case v of PyFloat x \<Rightarrow> Inr x | PyInt i \<Rightarrow> Inr (real_of_int i) | _ \<Rightarrow> Inl TypeError)"

text \<open>The dictionary built after the loop, from \<^verbatim>\<open>header_info\<close> as the loop left it.\<close>

definition site_metadata :: "int \<Rightarrow> site_info \<Rightarrow> site_state \<Rightarrow> py_error + site_summary" where
  "site_metadata sid info st =
     (case header_info st of
        None \<Rightarrow> Inl UnboundLocalError
      | Some hdr \<Rightarrow>
          py_bind (lookup hdr ''instrument_number'') (\<lambda>rx.
          py_bind (lookup hdr ''latitude'') (\<lambda>la.
          py_bind (format_6f la) (\<lambda>lat.
          py_bind (lookup hdr ''longitude'') (\<lambda>lo.
          py_bind (format_6f lo) (\<lambda>lon.
          py_bind (lookup hdr ''elevation'') (\<lambda>alt.
            Inr \<lparr> site_id = sid, site_name = SiteName info, Rx_no = rx,
                  Lat = lat, Lon = lon, Alt = alt,
                  Start_Time = start_time st, Finish_Time = finish_time st,
                  Sample_Rate = sample_rate st,
                  ExDipole_out = ExDipole info, ExAz = ExAzimuth info,
                  EyDipole_out = EyDipole info, EyAz = EyAzimuth info \<rparr>)))))))"

definition initial_state :: "log_event list \<Rightarrow> site_state" where
  "initial_state l =
     \<lparr> all_data = [], start_time = None, finish_time = None, sample_rate = None,
       header_info = None, site_log = l \<rparr>"

text \<open>\<^verbatim>\<open>pd.concat(all_data) if all_data else None\<close>.\<close>

definition concat_or_none :: "'a list list \<Rightarrow> 'a list option" where
  "concat_or_none xs = (case xs of [] \<Rightarrow> None | _ \<Rightarrow> Some (concat xs))"

text \<open>
  \<^verbatim>\<open>process_site\<close>: what it logs, and either the exception that leaves it or the
  pair it returns.
\<close>

definition process_site ::
  "directory \<Rightarrow> site_info \<Rightarrow> int \<Rightarrow>
   log_event list \<times> (py_error + (site_row list option \<times> site_summary option))" where
  "process_site dir info sid =
     (case dir (SiteName info) of
        None \<Rightarrow>
          ([HandlingSite (SiteName info), FolderNotFound (SiteName info)], Inr (None, None))
      | Some entries \<Rightarrow>
          (case binary_files entries of
             Inl err \<Rightarrow> ([HandlingSite (SiteName info)], Inl err)
           | Inr [] \<Rightarrow>
               ([HandlingSite (SiteName info), NoFilesFound (SiteName info)], Inr (None, None))
           | Inr (e # es) \<Rightarrow>
               (let st = file_loop sid (e # es) (initial_state [HandlingSite (SiteName info)])
                in case site_metadata sid info st of
                     Inl err \<Rightarrow> (site_log st, Inl err)
                   | Inr md \<Rightarrow>
                       (site_log st @ [FinishedSite (SiteName info)],
                        Inr (concat_or_none (all_data st), Some md)))))"

text \<open>
  Two readings of a run, used to state properties.  \<open>table_of\<close> is the table the
  loop gets from a file: None when the header dictionary has no coefficients or
  \<^verbatim>\<open>_from_binary\<close> returns None, which are the two ways a turn of the loop ends
  in the handler.  \<open>processed_files\<close> are the files the log reports as taken up by
  the loop, in order.
\<close>

definition table_of :: "lemi_file \<Rightarrow> frame option" where
  "table_of f = (case read f ''coefficients'' of None \<Rightarrow> None | Some c \<Rightarrow> load_data f c)"

fun processed_files :: "log_event list \<Rightarrow> string list" where
  "processed_files [] = []"
| "processed_files (ProcessingFile n # l) = n # processed_files l"
| "processed_files (ev # l) = processed_files l"

text \<open>
  Two more readings.  \<open>returned_summary\<close> is the summary a site job hands back,
  None when it ends with an exception or returns no summary.
  \<open>spec_first_second\<close> is the sample rate in the words of the specification:
  the number of rows whose timestamp is within one second of the timestamp of the
  first row of the table.
\<close>

definition returned_summary ::
  "py_error + (site_row list option \<times> site_summary option) \<Rightarrow> site_summary option" where
  "returned_summary res = (case res of Inl err \<Rightarrow> None | Inr (rows, md) \<Rightarrow> md)"

definition spec_first_second :: "frame \<Rightarrow> nat" where
  "spec_first_second df =
     (case df of
        [] \<Rightarrow> 0
      | r # rs \<Rightarrow> length (filter (\<lambda>x. \<bar>index x - index r\<bar> < 1000) (r # rs)))"

section \<open>\<^verbatim>\<open>process_all_sites\<close> and the entry point\<close>

text \<open>The size of the worker pool; \<^verbatim>\<open>os.cpu_count() or 1\<close> is \<open>cpus\<close>.\<close>

definition cpus :: "nat option \<Rightarrow> int" where
  "cpus cpu_count = (case cpu_count of None \<Rightarrow> 1 | Some n \<Rightarrow> (if n = 0 then 1 else int n))"

definition pool_size :: "int option \<Rightarrow> nat option \<Rightarrow> int" where
  "pool_size num_workers cpu_count =
     (case num_workers of
        None \<Rightarrow> min 4 (cpus cpu_count)
      | Some n \<Rightarrow> max 1 (min n (cpus cpu_count)))"

record batch_state =
  batch_data :: "site_row list list"
  metadata_list :: "site_summary option list"
  batch_log :: "log_event list"

text \<open>
  The loop over the futures, in the order of submission.  A site job is a function
  of its arguments only, so its result does not depend on the worker that runs it
  or on the other jobs; \<^verbatim>\<open>future.result()\<close> returns what the job returned or
  raises what it raised.
\<close>

definition collect ::
  "py_error + (site_row list option \<times> site_summary option) \<Rightarrow> batch_state \<Rightarrow> batch_state" where
  "collect res b =
     (case res of
        Inl err \<Rightarrow> b\<lparr> batch_log := batch_log b @ [ErrorInMultiprocessing err] \<rparr>
      | Inr (df, md) \<Rightarrow>
          (case df of
             None \<Rightarrow> b
           | Some rows \<Rightarrow>
               b\<lparr> batch_data := batch_data b @ [rows],
                   metadata_list := metadata_list b @ [md] \<rparr>))"

fun collect_all ::
  "directory \<Rightarrow> (int \<times> site_info) list \<Rightarrow> batch_state \<Rightarrow> batch_state" where
  "collect_all dir [] b = b"
| "collect_all dir (row # rows) b =
     collect_all dir rows (collect (snd (process_site dir (snd row) (fst row))) b)"

text \<open>
  \<^verbatim>\<open>process_all_sites\<close>; \<open>metadata_df\<close> is what \<^verbatim>\<open>load_metadata\<close> returned, each row
  with its index label.
\<close>

definition process_all_sites ::
  "directory \<Rightarrow> (int \<times> site_info) list option \<Rightarrow>
   site_row list option \<times> site_summary option list option" where
  "process_all_sites dir metadata_df =
     (case metadata_df of
        None \<Rightarrow> (None, None)
      | Some rows \<Rightarrow>
          (let b = collect_all dir rows \<lparr> batch_data = [], metadata_list = [], batch_log = [] \<rparr>
           in (concat_or_none (batch_data b), Some (metadata_list b))))"




section \<open>Example inputs\<close>

text \<open>
  A header as the instrument writes it: the lines of text, then zero bytes up to
  byte 1024.
\<close>

definition encode_ascii :: "string \<Rightarrow> byte list" where
  "encode_ascii s = map of_char s"

definition unlines :: "string list \<Rightarrow> string" where
  "unlines ls = concat (map (\<lambda>l. l @ [CHR 0x0A]) ls)"

definition header_block :: "string list \<Rightarrow> byte list" where
  "header_block ls = encode_ascii (unlines ls) @ replicate (1024 - length (unlines ls)) 0"

definition example_lines :: "string \<Rightarrow> string list" where
  "example_lines lat =
     [''%LEMI423 #00123'', ''%'', ''%'', ''%'', ''%Date 2024/07/03'', ''%Time 00:00:00'',
      ''%'', ''%'', ''%'', lat, ''%Lon 13836.0000,E'', ''%Alt 105.5,M'', ''%'',
      ''%Kmx=0.5'', ''%Ax=1'', ''%Kmy=2'', ''%Ay=0'', ''%Kmz=1'', ''%Az=0'',
      ''%Ke1=1'', ''%Ae1=0'', ''%Ke2=1'', ''%Ae2=0.25'']"

text \<open>
  Three records: two in the second 1719964800 (ticks 0 and 500) and one in the next.
\<close>

definition example_record :: "byte list" where
  "example_record =
     [128, 148, 132, 102, 0, 0, 100, 0, 0, 0, 56, 255, 255, 255, 44, 1, 0, 0,
      255, 255, 255, 255, 5, 0, 0, 0, 1, 2, 253, 255]"

definition example_records :: "byte list" where
  "example_records =
     example_record @
     [128, 148, 132, 102, 244, 1, 101, 0, 0, 0, 55, 255, 255, 255, 45, 1, 0, 0,
      0, 0, 0, 0, 6, 0, 0, 0, 1, 2, 7, 0,
      129, 148, 132, 102, 0, 0, 102, 0, 0, 0, 54, 255, 255, 255, 46, 1, 0, 0,
      1, 0, 0, 0, 7, 0, 0, 0, 0, 2, 9, 0]"

text \<open>A complete file, with three stray bytes after the last record.\<close>

definition good_file :: lemi_file where
  "good_file =
     \<lparr> readable = True,
       contents = header_block (example_lines ''%Lat 3455.5000,S'') @ example_records @ [1, 2, 3] \<rparr>"

definition empty_file :: lemi_file where
  "empty_file = \<lparr> readable = True, contents = [] \<rparr>"

definition unreadable_file :: lemi_file where
  "unreadable_file = \<lparr> readable = False, contents = [] \<rparr>"

definition example_coefficients :: coeffs where
  "example_coefficients =
     [''Kmx'' \<mapsto> 1 / 2, ''Ax'' \<mapsto> 1, ''Kmy'' \<mapsto> 2, ''Ay'' \<mapsto> 0, ''Kmz'' \<mapsto> 1, ''Az'' \<mapsto> 0,
      ''Ke1'' \<mapsto> 1, ''Ae1'' \<mapsto> 0, ''Ke2'' \<mapsto> 1, ''Ae2'' \<mapsto> 1 / 4]"

definition example_reader :: Read_Lemi_Data where
  "example_reader =
     \<lparr> data_file = good_file, data_coefficients = example_coefficients, data = None \<rparr>"

text \<open>Text that the header block stores as it is: ASCII, without a line break.\<close>

definition plain_text :: "string \<Rightarrow> bool" where
  "plain_text s = list_all (\<lambda>c. (of_char c :: byte) < 128 \<and> \<not> is_linebreak c) s"

text \<open>
  A header whose latitude line has no hemisphere field, and one whose latitude
  line reads 90 degrees and 30 minutes north.
\<close>

definition malformed_file :: lemi_file where
  "malformed_file =
     \<lparr> readable = True,
       contents = header_block (example_lines ''%Lat 3455.5000'') @ example_records \<rparr>"

definition north_file :: lemi_file where
  "north_file =
     \<lparr> readable = True,
       contents = header_block (example_lines ''%Lat 9030.0000,N'') @ example_records \<rparr>"

text \<open>
  A base directory with five site folders: two good files and a text file under
  A; a good file followed by an empty one under B; no instrument file under C; a
  file whose name has no number under E; one good file under F.  There is no
  folder D.
\<close>

definition example_directory :: directory where
  "example_directory =
     [''A'' \<mapsto> [(''1720000000.B423'', good_file), (''notes.txt'', empty_file),
                (''1719964800.B423'', good_file)],
      ''B'' \<mapsto> [(''1719964800.B423'', good_file), (''1720000000.B423'', empty_file)],
      ''C'' \<mapsto> [(''readme.txt'', empty_file)],
      ''E'' \<mapsto> [(''notes.B423'', good_file)],
      ''F'' \<mapsto> [(''1719964800.B423'', good_file)]]"

definition example_site :: "string \<Rightarrow> site_info" where
  "example_site name =
     \<lparr> SiteName = name, ExDipole = 50, ExAzimuth = 0, EyDipole = 50, EyAzimuth = 90 \<rparr>"

text \<open>
  A file whose three records are not in the order of time: the first is stamped
  3.000 s, the next two 0.500 s and 0.600 s.  All channels are zero.
\<close>

definition shuffled_records :: "byte list" where
  "shuffled_records =
     [3, 0, 0, 0, 0, 0, 0, 0, 0, 0, 0, 0, 0, 0, 0, 0, 0, 0, 0, 0, 0, 0, 0, 0, 0, 0, 0, 0, 0, 0,
      0, 0, 0, 0, 244, 1, 0, 0, 0, 0, 0, 0, 0, 0, 0, 0, 0, 0, 0, 0, 0, 0, 0, 0, 0, 0, 0, 0, 0, 0,
      0, 0, 0, 0, 88, 2, 0, 0, 0, 0, 0, 0, 0, 0, 0, 0, 0, 0, 0, 0, 0, 0, 0, 0, 0, 0, 0, 0, 0, 0]"

definition shuffled_file :: lemi_file where
  "shuffled_file =
     \<lparr> readable = True,
       contents = header_block (example_lines ''%Lat 3455.5000,S'') @ shuffled_records \<rparr>"

definition shuffled_directory :: directory where
  "shuffled_directory = [''H'' \<mapsto> [(''1719964800.B423'', shuffled_file)]]"

text \<open>
  A file that ends with its header block: the header parses and there is no
  record.
\<close>

definition header_only_file :: lemi_file where
  "header_only_file =
     \<lparr> readable = True, contents = header_block (example_lines ''%Lat 3455.5000,S'') \<rparr>"


text \<open>
  A folder whose first file is empty, whose second file is good and whose last
  file has a header and no record.
\<close>

definition late_directory :: directory where
  "late_directory =
     [''G'' \<mapsto> [(''1719964800.B423'', empty_file), (''1720000000.B423'', good_file),
              (''1720035200.B423'', header_only_file)]]"

section \<open>Proofs: the record decoder\<close>

lemma le_word_bits: "bit (le_word bs :: 'a::len word) n \<Longrightarrow> n < 8 * length bs"
proof (induction bs arbitrary: n)
  case Nil
  then show ?case by simp
next
  case (Cons b bs)
  show ?case
  proof (cases "n < 8")
    case True
    then show ?thesis by simp
  next
    case False
    with Cons.prems have "bit (le_word bs :: 'a word) (n - 8)"
      by (auto simp: bit_simps dest: bit_imp_le_length)
    from Cons.IH[OF this] False show ?thesis by simp
  qed
qed

lemma le_word_low: "8 \<le> LENGTH('a::len) \<Longrightarrow> ucast (le_word (b # bs) :: 'a word) = b"
  by (rule bit_word_eqI) (auto simp: bit_simps)

lemma le_word_high:
  assumes "8 + 8 * length bs \<le> LENGTH('a::len)"
  shows "drop_bit 8 (le_word (b # bs) :: 'a word) = le_word bs"
proof (rule bit_word_eqI)
  fix n assume n: "n < LENGTH('a)"
  show "bit (drop_bit 8 (le_word (b # bs) :: 'a word)) n = bit (le_word bs :: 'a word) n"
    using le_word_bits[of bs n, where 'a='a] assms n
    by (auto simp: bit_simps dest: bit_imp_le_length)
qed

lemma le_bytes_le_word:
  "8 * length bs \<le> LENGTH('a::len) \<Longrightarrow> le_bytes (length bs) (le_word bs :: 'a word) = bs"
proof (induction bs)
  case Nil
  then show ?case by simp
next
  case (Cons b bs)
  then have 1: "8 + 8 * length bs \<le> LENGTH('a)" and 2: "8 \<le> LENGTH('a)" by simp_all
  have "le_bytes (length (b # bs)) (le_word (b # bs) :: 'a word)
      = ucast (le_word (b # bs) :: 'a word) # le_bytes (length bs) (drop_bit 8 (le_word (b # bs) :: 'a word))"
    by (simp del: le_word.simps)
  also have "\<dots> = b # le_bytes (length bs) (le_word bs :: 'a word)"
    by (simp only: le_word_low[OF 2] le_word_high[OF 1])
  finally show ?case using Cons.IH 1 by simp
qed

lemma length_field: "off + n \<le> length bs \<Longrightarrow> length (field off n bs) = n"
  by (simp add: field_def)

lemma field_roundtrip:
  "off + n \<le> length bs \<Longrightarrow> 8 * n \<le> LENGTH('a::len) \<Longrightarrow>
   le_bytes n (le_word (field off n bs) :: 'a word) = field off n bs"
  using le_bytes_le_word[of "field off n bs", where 'a='a] by (simp add: length_field)

lemma field_append: "field off n bs @ drop (off + n) bs = drop off bs"
  by (metis add.commute append_take_drop_id drop_drop field_def)

lemma fields_cover:
  assumes "length bs = 30"
  shows "field 0 4 bs @ field 4 2 bs @ field 6 4 bs @ field 10 4 bs @ field 14 4 bs @
         field 18 4 bs @ field 22 4 bs @ field 26 1 bs @ field 27 1 bs @ field 28 2 bs = bs"
proof -
  have "field 28 2 bs = drop 28 bs"
    using field_append[of 28 2 bs] assms by simp
  then have "field 27 1 bs @ field 28 2 bs = drop 27 bs"
    using field_append[of 27 1 bs] by simp
  then have "field 26 1 bs @ field 27 1 bs @ field 28 2 bs = drop 26 bs"
    using field_append[of 26 1 bs] by simp
  then have "field 22 4 bs @ field 26 1 bs @ field 27 1 bs @ field 28 2 bs = drop 22 bs"
    using field_append[of 22 4 bs] by simp
  then have "field 18 4 bs @ field 22 4 bs @ field 26 1 bs @ field 27 1 bs @ field 28 2 bs = drop 18 bs"
    using field_append[of 18 4 bs] by simp
  then have "field 14 4 bs @ field 18 4 bs @ field 22 4 bs @ field 26 1 bs @ field 27 1 bs @
             field 28 2 bs = drop 14 bs"
    using field_append[of 14 4 bs] by simp
  then have "field 10 4 bs @ field 14 4 bs @ field 18 4 bs @ field 22 4 bs @ field 26 1 bs @
             field 27 1 bs @ field 28 2 bs = drop 10 bs"
    using field_append[of 10 4 bs] by simp
  then have "field 6 4 bs @ field 10 4 bs @ field 14 4 bs @ field 18 4 bs @ field 22 4 bs @
             field 26 1 bs @ field 27 1 bs @ field 28 2 bs = drop 6 bs"
    using field_append[of 6 4 bs] by simp
  then have "field 4 2 bs @ field 6 4 bs @ field 10 4 bs @ field 14 4 bs @ field 18 4 bs @
             field 22 4 bs @ field 26 1 bs @ field 27 1 bs @ field 28 2 bs = drop 4 bs"
    using field_append[of 4 2 bs] by simp
  then show ?thesis
    using field_append[of 0 4 bs] by simp
qed

lemma encode_decode_record:
  assumes "length bs = 30"
  shows "encode_record (decode_record bs) = bs"
proof -
  have "encode_record (decode_record bs) =
        field 0 4 bs @ field 4 2 bs @ field 6 4 bs @ field 10 4 bs @ field 14 4 bs @
        field 18 4 bs @ field 22 4 bs @ field 26 1 bs @ field 27 1 bs @ field 28 2 bs"
  proof -
    have f: "le_bytes 4 (le_word (field 0 4 bs) :: 32 word) = field 0 4 bs"
        "le_bytes 2 (le_word (field 4 2 bs) :: 16 word) = field 4 2 bs"
        "le_bytes 4 (le_word (field 6 4 bs) :: 32 word) = field 6 4 bs"
        "le_bytes 4 (le_word (field 10 4 bs) :: 32 word) = field 10 4 bs"
        "le_bytes 4 (le_word (field 14 4 bs) :: 32 word) = field 14 4 bs"
        "le_bytes 4 (le_word (field 18 4 bs) :: 32 word) = field 18 4 bs"
        "le_bytes 4 (le_word (field 22 4 bs) :: 32 word) = field 22 4 bs"
        "le_bytes 1 (le_word (field 26 1 bs) :: 8 word) = field 26 1 bs"
        "le_bytes 1 (le_word (field 27 1 bs) :: 8 word) = field 27 1 bs"
        "le_bytes 2 (le_word (field 28 2 bs) :: 16 word) = field 28 2 bs"
      using assms by - ((rule field_roundtrip; simp)+)
    show ?thesis
      by (simp only: encode_record_def decode_record_def raw_record.select_convs f)
  qed
  then show ?thesis using fields_cover[OF assms] by simp
qed

lemma length_fromfile: "length (fromfile bs) = length bs div 30"
proof (induction bs rule: fromfile.induct)
  case (1 bs)
  show ?case
  proof (cases "length bs < 30")
    case True
    then show ?thesis by (simp add: fromfile.simps[of bs])
  next
    case False
    then have "length (fromfile bs) = Suc (length (drop 30 bs) div 30)"
      using 1 by (simp add: fromfile.simps[of bs])
    also have "\<dots> = length bs div 30"
      using False by (simp add: le_div_geq)
    finally show ?thesis .
  qed
qed

lemma fromfile_ignores_tail:
  "fromfile bs = fromfile (take (30 * (length bs div 30)) bs)"
proof (induction bs rule: fromfile.induct)
  case (1 bs)
  show ?case
  proof (cases "length bs < 30")
    case True
    then show ?thesis by (simp add: fromfile.simps[of bs] fromfile.simps[of "[]"])
  next
    case False
    let ?k = "length bs div 30"
    from False have k: "?k = Suc ((length bs - 30) div 30)" by (simp add: le_div_geq)
    have len: "30 \<le> length (take (30 * ?k) bs)" using False k by simp
    have a: "take 30 (take (30 * ?k) bs) = take 30 bs" using k by (simp add: min_def)
    have b: "drop 30 (take (30 * ?k) bs) = take (30 * ((length bs - 30) div 30)) (drop 30 bs)"
      using k by (simp add: drop_take)
    have "fromfile (take (30 * ?k) bs) =
          decode_record (take 30 bs) # fromfile (take (30 * ((length bs - 30) div 30)) (drop 30 bs))"
      using len a b by (subst fromfile.simps) simp
    also have "\<dots> = decode_record (take 30 bs) # fromfile (drop 30 bs)"
      using 1[OF False] by simp
    also have "\<dots> = fromfile bs" using False by (simp add: fromfile.simps[of bs])
    finally show ?thesis by simp
  qed
qed


section \<open>Proofs: calibration\<close>

lemma getcoef_Some: "c k = Some v \<Longrightarrow> getcoef c k = Inr v"
  by (simp add: getcoef_def)

lemma getcoef_None: "c k = None \<Longrightarrow> getcoef c k = Inl KeyError"
  by (simp add: getcoef_def)

lemma from_binary_body_Inr:
  assumes "readable (data_file self)"
    and "data_coefficients self ''Kmx'' = Some kmx" and "data_coefficients self ''Ax'' = Some ax"
    and "data_coefficients self ''Kmy'' = Some kmy" and "data_coefficients self ''Ay'' = Some ay"
    and "data_coefficients self ''Kmz'' = Some kmz" and "data_coefficients self ''Az'' = Some az"
    and "data_coefficients self ''Ke1'' = Some ke1" and "data_coefficients self ''Ae1'' = Some ae1"
    and "data_coefficients self ''Ke2'' = Some ke2" and "data_coefficients self ''Ae2'' = Some ae2"
  shows "from_binary_body self =
         Inr (map (calibrated_row kmx ax kmy ay kmz az ke1 ae1 ke2 ae2)
                  (fromfile (drop 1024 (contents (data_file self)))))"
  using assms by (simp add: from_binary_body_def getcoef_Some py_bind_def)

lemma from_binary_body_unreadable:
  "\<not> readable (data_file self) \<Longrightarrow> from_binary_body self = Inl OSError"
  by (simp add: from_binary_body_def)

lemma from_binary_body_InrD:
  assumes "from_binary_body self = Inr df"
  shows "readable (data_file self) \<and>
         (\<exists>kmx ax kmy ay kmz az ke1 ae1 ke2 ae2.
            data_coefficients self ''Kmx'' = Some kmx \<and> data_coefficients self ''Ax'' = Some ax \<and>
            data_coefficients self ''Kmy'' = Some kmy \<and> data_coefficients self ''Ay'' = Some ay \<and>
            data_coefficients self ''Kmz'' = Some kmz \<and> data_coefficients self ''Az'' = Some az \<and>
            data_coefficients self ''Ke1'' = Some ke1 \<and> data_coefficients self ''Ae1'' = Some ae1 \<and>
            data_coefficients self ''Ke2'' = Some ke2 \<and> data_coefficients self ''Ae2'' = Some ae2 \<and>
            df = map (calibrated_row kmx ax kmy ay kmz az ke1 ae1 ke2 ae2)
                     (fromfile (drop 1024 (contents (data_file self)))))"
  using assms
  by (auto simp: from_binary_body_def getcoef_def py_bind_def Let_def
           split: if_splits option.splits)

lemma from_binary_body_missing:
  assumes "k \<in> set required_keys" and "data_coefficients self k = None"
  shows "from_binary_body self = Inl OSError \<or> from_binary_body self = Inl KeyError"
proof (cases "readable (data_file self)")
  case False
  then show ?thesis by (simp add: from_binary_body_unreadable)
next
  case True
  have "from_binary_body self = Inl KeyError"
  proof (cases "from_binary_body self")
    case (Inl e)
    then show ?thesis
      using True
      by (auto simp: from_binary_body_def getcoef_def py_bind_def Let_def
               split: option.splits)
  next
    case (Inr df)
    from from_binary_body_InrD[OF Inr] assms show ?thesis
      by (auto simp: required_keys_def)
  qed
  then show ?thesis by simp
qed

lemma length_header_block:
  "length (unlines ls) \<le> 1024 \<Longrightarrow> length (header_block ls) = 1024"
  by (simp add: header_block_def encode_ascii_def)

lemma example_lines_length: "length (unlines (example_lines ''%Lat 3455.5000,S'')) = 182"
  by code_simp

lemma good_file_data: "drop 1024 (contents good_file) = example_records @ [1, 2, 3]"
proof -
  have "length (header_block (example_lines ''%Lat 3455.5000,S'')) = 1024"
    by (rule length_header_block) (simp add: example_lines_length)
  then show ?thesis by (simp add: good_file_def)
qed

lemma good_file_records:
  "fromfile (drop 1024 (contents good_file)) =
     [\<lparr>time = 1719964800, tick = 0, Bx = 100, By = - 200, Bz = 300, Ex = - 1, Ey = 5,
        sync = 1, stage = 2, CRC = - 3\<rparr>,
      \<lparr>time = 1719964800, tick = 500, Bx = 101, By = - 201, Bz = 301, Ex = 0, Ey = 6,
        sync = 1, stage = 2, CRC = 7\<rparr>,
      \<lparr>time = 1719964801, tick = 0, Bx = 102, By = - 202, Bz = 302, Ex = 1, Ey = 7,
        sync = 0, stage = 2, CRC = 9\<rparr>]"
  unfolding good_file_data by code_simp

lemma example_reader_readable: "readable (data_file example_reader)"
  by (simp add: example_reader_def good_file_def)

lemma example_reader_keys:
  "\<forall>k \<in> set required_keys. data_coefficients example_reader k \<noteq> None"
  by (simp add: example_reader_def example_coefficients_def required_keys_def del: not_None_eq)

text \<open>
  Claim C1.  When the file can be read and the coefficients hold the ten required
  keys, \<^verbatim>\<open>_from_binary\<close> returns a table with one row per decoded record, in
  which each channel is the raw count times its scale plus its offset, with the
  pairs (Kmx, Ax), (Kmy, Ay), (Kmz, Az), (Ke1, Ae1), (Ke2, Ae2) for Bx, By, Bz, Ex,
  Ey, and the index is the time field in seconds plus the tick field in
  milliseconds (here in milliseconds since the epoch).  Floats are real numbers in
  this statement.
\<close>

theorem C1_calibration:
  assumes "readable (data_file self)"
    and "\<forall>k \<in> set required_keys. data_coefficients self k \<noteq> None"
  shows "\<exists>df. fst (from_binary self) = Some df \<and>
           length df = length (fromfile (drop 1024 (contents (data_file self)))) \<and>
           (\<forall>i < length df.
              Bx_cal (df ! i) =
                real_of_int (sint (Bx (fromfile (drop 1024 (contents (data_file self))) ! i)))
                  * the (data_coefficients self ''Kmx'') + the (data_coefficients self ''Ax'') \<and>
              By_cal (df ! i) =
                real_of_int (sint (By (fromfile (drop 1024 (contents (data_file self))) ! i)))
                  * the (data_coefficients self ''Kmy'') + the (data_coefficients self ''Ay'') \<and>
              Bz_cal (df ! i) =
                real_of_int (sint (Bz (fromfile (drop 1024 (contents (data_file self))) ! i)))
                  * the (data_coefficients self ''Kmz'') + the (data_coefficients self ''Az'') \<and>
              Ex_cal (df ! i) =
                real_of_int (sint (Ex (fromfile (drop 1024 (contents (data_file self))) ! i)))
                  * the (data_coefficients self ''Ke1'') + the (data_coefficients self ''Ae1'') \<and>
              Ey_cal (df ! i) =
                real_of_int (sint (Ey (fromfile (drop 1024 (contents (data_file self))) ! i)))
                  * the (data_coefficients self ''Ke2'') + the (data_coefficients self ''Ae2'') \<and>
              index (df ! i) =
                uint (time (fromfile (drop 1024 (contents (data_file self))) ! i)) * 1000
                  + uint (tick (fromfile (drop 1024 (contents (data_file self))) ! i)))"
proof -
  let ?c = "data_coefficients self"
  let ?raws = "fromfile (drop 1024 (contents (data_file self)))"
  from assms(2) obtain kmx ax kmy ay kmz az ke1 ae1 ke2 ae2 where c:
    "?c ''Kmx'' = Some kmx" "?c ''Ax'' = Some ax" "?c ''Kmy'' = Some kmy" "?c ''Ay'' = Some ay"
    "?c ''Kmz'' = Some kmz" "?c ''Az'' = Some az" "?c ''Ke1'' = Some ke1" "?c ''Ae1'' = Some ae1"
    "?c ''Ke2'' = Some ke2" "?c ''Ae2'' = Some ae2"
    by (auto simp: required_keys_def)
  have "fst (from_binary self) = Some (map (calibrated_row kmx ax kmy ay kmz az ke1 ae1 ke2 ae2) ?raws)"
    by (simp add: from_binary_def from_binary_body_Inr[OF assms(1) c])
  then show ?thesis
    by (simp add: c calibrated_row_def to_datetime_ms_def)
qed


theorem C1_calibration_witness:
  "fst (from_binary example_reader) \<noteq> None \<and>
   length (the (fst (from_binary example_reader))) = 3 \<and>
   Bx_cal (the (fst (from_binary example_reader)) ! 1) = 101 * (1 / 2) + 1 \<and>
   By_cal (the (fst (from_binary example_reader)) ! 1) = - 201 * 2 + 0 \<and>
   Bz_cal (the (fst (from_binary example_reader)) ! 1) = 301 * 1 + 0 \<and>
   Ex_cal (the (fst (from_binary example_reader)) ! 1) = 0 * 1 + 0 \<and>
   Ey_cal (the (fst (from_binary example_reader)) ! 1) = 6 * 1 + 1 / 4 \<and>
   index (the (fst (from_binary example_reader)) ! 1) = 1719964800 * 1000 + 500"
proof -
  from C1_calibration[OF example_reader_readable example_reader_keys]
  obtain df where df: "fst (from_binary example_reader) = Some df"
    and len: "length df = length (fromfile (drop 1024 (contents (data_file example_reader))))"
    and rows: "\<forall>i < length df.
              Bx_cal (df ! i) =
                real_of_int (sint (Bx (fromfile (drop 1024 (contents (data_file example_reader))) ! i)))
                  * the (data_coefficients example_reader ''Kmx'') + the (data_coefficients example_reader ''Ax'') \<and>
              By_cal (df ! i) =
                real_of_int (sint (By (fromfile (drop 1024 (contents (data_file example_reader))) ! i)))
                  * the (data_coefficients example_reader ''Kmy'') + the (data_coefficients example_reader ''Ay'') \<and>
              Bz_cal (df ! i) =
                real_of_int (sint (Bz (fromfile (drop 1024 (contents (data_file example_reader))) ! i)))
                  * the (data_coefficients example_reader ''Kmz'') + the (data_coefficients example_reader ''Az'') \<and>
              Ex_cal (df ! i) =
                real_of_int (sint (Ex (fromfile (drop 1024 (contents (data_file example_reader))) ! i)))
                  * the (data_coefficients example_reader ''Ke1'') + the (data_coefficients example_reader ''Ae1'') \<and>
              Ey_cal (df ! i) =
                real_of_int (sint (Ey (fromfile (drop 1024 (contents (data_file example_reader))) ! i)))
                  * the (data_coefficients example_reader ''Ke2'') + the (data_coefficients example_reader ''Ae2'') \<and>
              index (df ! i) =
                uint (time (fromfile (drop 1024 (contents (data_file example_reader))) ! i)) * 1000
                  + uint (tick (fromfile (drop 1024 (contents (data_file example_reader))) ! i))"
    by blast
  have f: "data_file example_reader = good_file"
    by (simp add: example_reader_def)
  have c: "data_coefficients example_reader = example_coefficients"
    by (simp add: example_reader_def)
  from len have l3: "length df = 3"
    by (simp add: f good_file_records)
  with rows have "Bx_cal (df ! 1) = 101 * (1 / 2) + 1 \<and>
   By_cal (df ! 1) = - 201 * 2 + 0 \<and>
   Bz_cal (df ! 1) = 301 * 1 + 0 \<and>
   Ex_cal (df ! 1) = 0 * 1 + 0 \<and>
   Ey_cal (df ! 1) = 6 * 1 + 1 / 4 \<and>
   index (df ! 1) = 1719964800 * 1000 + 500"
    by (simp add: f c good_file_records example_coefficients_def)
  with df l3 show ?thesis by simp
qed

section \<open>Proofs: lossless decoding and the record count\<close>

text \<open>
  Claim C2, as stated, gives the number of records of every file as
  floor((size - 1024) / 30).  For a file shorter than the header the formula is
  negative, while the reader decodes no record: the empty file has 0 records, and
  floor(-1024 / 30) is -35.
\<close>

theorem C2_counterexample:
  "int (length (fromfile (drop 1024 (contents empty_file)))) \<noteq>
     (int (length (contents empty_file)) - 1024) div 30"
  by (simp add: empty_file_def fromfile.simps[of "[]"])

text \<open>
  Claim C2, amended.  Decoding a 30-byte record into the ten fields and writing
  the fields back in the same layout gives the same 30 bytes.  For a file of at
  least 1024 bytes the number of decoded records is floor((size - 1024) / 30); a
  shorter file has no record.  The bytes after the last whole record are ignored:
  the result is that of the file cut after its last whole record.
\<close>

theorem C2_decode_lossless_and_count:
  "(length bs = 30 \<longrightarrow> encode_record (decode_record bs) = bs) \<and>
   (1024 \<le> length (contents f) \<longrightarrow>
      int (length (fromfile (drop 1024 (contents f)))) = (int (length (contents f)) - 1024) div 30) \<and>
   (length (contents f) < 1024 \<longrightarrow> fromfile (drop 1024 (contents f)) = []) \<and>
   fromfile (drop 1024 (contents f)) =
     fromfile (take (30 * ((length (contents f) - 1024) div 30)) (drop 1024 (contents f)))"
proof (intro conjI impI)
  assume "length bs = 30"
  then show "encode_record (decode_record bs) = bs" by (rule encode_decode_record)
next
  assume "1024 \<le> length (contents f)"
  then have "int (length (contents f) - 1024) = int (length (contents f)) - 1024" by simp
  then show "int (length (fromfile (drop 1024 (contents f)))) = (int (length (contents f)) - 1024) div 30"
    by (simp add: length_fromfile zdiv_int)
next
  assume "length (contents f) < 1024"
  then show "fromfile (drop 1024 (contents f)) = []"
    by (simp add: fromfile.simps[of "[]"])
next
  show "fromfile (drop 1024 (contents f)) =
     fromfile (take (30 * ((length (contents f) - 1024) div 30)) (drop 1024 (contents f)))"
    using fromfile_ignores_tail[of "drop 1024 (contents f)"] by simp
qed

lemma example_record_length: "length example_record = 30"
  by (simp add: example_record_def)

lemma good_file_length: "length (contents good_file) = 1117"
proof -
  have "length (header_block (example_lines ''%Lat 3455.5000,S'')) = 1024"
    by (rule length_header_block) (simp add: example_lines_length)
  then show ?thesis by (simp add: good_file_def example_records_def example_record_def)
qed

theorem C2_decode_lossless_and_count_witness:
  "encode_record (decode_record example_record) = example_record \<and>
   length (contents good_file) = 1024 + 3 * 30 + 3 \<and>
   length (fromfile (drop 1024 (contents good_file))) = 3 \<and>
   fromfile (drop 1024 (contents empty_file)) = []"
proof -
  note good = C2_decode_lossless_and_count[of example_record good_file]
  note empty = C2_decode_lossless_and_count[of example_record empty_file]
  from good have 1: "encode_record (decode_record example_record) = example_record"
    by (simp add: example_record_length)
  from good have "1024 \<le> length (contents good_file) \<longrightarrow>
      int (length (fromfile (drop 1024 (contents good_file)))) =
      (int (length (contents good_file)) - 1024) div 30"
    by blast
  then have 2: "length (fromfile (drop 1024 (contents good_file))) = 3"
    by (simp add: good_file_length)
  from empty have 3: "fromfile (drop 1024 (contents empty_file)) = []"
    by (simp add: empty_file_def)
  from 1 2 3 show ?thesis by (simp add: good_file_length)
qed

section \<open>Proofs: \<^verbatim>\<open>_from_binary\<close> returns a whole table or nothing\<close>

text \<open>
  Claim C10.  Whatever exception the \<^verbatim>\<open>try\<close> block meets, \<^verbatim>\<open>_from_binary\<close>
  returns None and leaves the object as it was; this is the case when the file
  cannot be opened and when one of the ten keys is missing.  When it returns a
  table, the table is stored in \<^verbatim>\<open>data\<close>, all ten coefficients were present and
  every row is calibrated in all five channels.  On an object whose \<^verbatim>\<open>data\<close> is
  still None, \<^verbatim>\<open>get_data\<close> afterwards gives exactly what \<^verbatim>\<open>_from_binary\<close>
  returned.  The model has no result other than the returned pair, so no exception
  reaches the caller.
\<close>

theorem C10_from_binary_atomic:
  "(from_binary_body self = Inl e \<longrightarrow> from_binary self = (None, self)) \<and>
   (\<not> readable (data_file self) \<longrightarrow> from_binary self = (None, self)) \<and>
   (k \<in> set required_keys \<and> data_coefficients self k = None \<longrightarrow> from_binary self = (None, self)) \<and>
   (fst (from_binary self) = None \<longrightarrow> snd (from_binary self) = self) \<and>
   (fst (from_binary self) = Some df \<longrightarrow>
      get_data (snd (from_binary self)) = Some df \<and>
      readable (data_file self) \<and>
      (\<exists>kmx ax kmy ay kmz az ke1 ae1 ke2 ae2.
          data_coefficients self ''Kmx'' = Some kmx \<and> data_coefficients self ''Ax'' = Some ax \<and>
          data_coefficients self ''Kmy'' = Some kmy \<and> data_coefficients self ''Ay'' = Some ay \<and>
          data_coefficients self ''Kmz'' = Some kmz \<and> data_coefficients self ''Az'' = Some az \<and>
          data_coefficients self ''Ke1'' = Some ke1 \<and> data_coefficients self ''Ae1'' = Some ae1 \<and>
          data_coefficients self ''Ke2'' = Some ke2 \<and> data_coefficients self ''Ae2'' = Some ae2 \<and>
          df = map (calibrated_row kmx ax kmy ay kmz az ke1 ae1 ke2 ae2)
                   (fromfile (drop 1024 (contents (data_file self)))))) \<and>
   (data self = None \<longrightarrow> get_data (snd (from_binary self)) = fst (from_binary self))"
proof (intro conjI impI)
  assume "from_binary_body self = Inl e"
  then show "from_binary self = (None, self)" by (simp add: from_binary_def)
next
  assume "\<not> readable (data_file self)"
  then show "from_binary self = (None, self)"
    by (simp add: from_binary_def from_binary_body_unreadable)
next
  assume "k \<in> set required_keys \<and> data_coefficients self k = None"
  then have "from_binary_body self = Inl OSError \<or> from_binary_body self = Inl KeyError"
    using from_binary_body_missing[of k self] by simp
  then show "from_binary self = (None, self)" by (auto simp: from_binary_def)
next
  assume "fst (from_binary self) = None"
  then show "snd (from_binary self) = self"
    by (simp add: from_binary_def split: sum.splits)
next
  assume df: "fst (from_binary self) = Some df"
  then have body: "from_binary_body self = Inr df"
    by (simp add: from_binary_def split: sum.splits)
  then show "get_data (snd (from_binary self)) = Some df"
    by (simp add: from_binary_def get_data_def)
  from from_binary_body_InrD[OF body] show "readable (data_file self)" by simp
  from from_binary_body_InrD[OF body]
  show "\<exists>kmx ax kmy ay kmz az ke1 ae1 ke2 ae2.
          data_coefficients self ''Kmx'' = Some kmx \<and> data_coefficients self ''Ax'' = Some ax \<and>
          data_coefficients self ''Kmy'' = Some kmy \<and> data_coefficients self ''Ay'' = Some ay \<and>
          data_coefficients self ''Kmz'' = Some kmz \<and> data_coefficients self ''Az'' = Some az \<and>
          data_coefficients self ''Ke1'' = Some ke1 \<and> data_coefficients self ''Ae1'' = Some ae1 \<and>
          data_coefficients self ''Ke2'' = Some ke2 \<and> data_coefficients self ''Ae2'' = Some ae2 \<and>
          df = map (calibrated_row kmx ax kmy ay kmz az ke1 ae1 ke2 ae2)
                   (fromfile (drop 1024 (contents (data_file self))))"
    by simp
next
  assume "data self = None"
  then show "get_data (snd (from_binary self)) = fst (from_binary self)"
    by (simp add: from_binary_def get_data_def split: sum.splits)
qed

theorem C10_from_binary_atomic_witness:
  "from_binary (example_reader\<lparr>data_file := unreadable_file\<rparr>) =
     (None, example_reader\<lparr>data_file := unreadable_file\<rparr>) \<and>
   from_binary (example_reader\<lparr>data_coefficients := example_coefficients(''Ke2'' := None)\<rparr>) =
     (None, example_reader\<lparr>data_coefficients := example_coefficients(''Ke2'' := None)\<rparr>) \<and>
   get_data (snd (from_binary example_reader)) = fst (from_binary example_reader)"
proof -
  let ?u = "example_reader\<lparr>data_file := unreadable_file\<rparr>"
  let ?m = "example_reader\<lparr>data_coefficients := example_coefficients(''Ke2'' := None)\<rparr>"
  have "\<not> readable (data_file ?u)" by (simp add: unreadable_file_def)
  with C10_from_binary_atomic[of ?u OSError "''Kmx''" "[]"]
  have 1: "from_binary ?u = (None, ?u)" by blast
  have "''Ke2'' \<in> set required_keys \<and> data_coefficients ?m ''Ke2'' = None"
    by (simp add: required_keys_def)
  with C10_from_binary_atomic[of ?m KeyError "''Ke2''" "[]"]
  have 2: "from_binary ?m = (None, ?m)" by blast
  have "data example_reader = None" by (simp add: example_reader_def)
  with C10_from_binary_atomic[of example_reader OSError "''Kmx''" "[]"]
  have 3: "get_data (snd (from_binary example_reader)) = fst (from_binary example_reader)"
    by blast
  from 1 2 3 show ?thesis by simp
qed

section \<open>Proofs: the header of a file\<close>

lemma char_of_uint_of_char: "char_of (uint (of_char c :: byte)) = c"
proof -
  have "uint (of_char c :: byte) = (of_char c :: int)"
    by (cases c) (simp add: uint_word_ariths uint_word_of_int take_bit_eq_mod)
  then show ?thesis by simp
qed

lemma decode_ignore_append: "decode_ignore (xs @ ys) = decode_ignore xs @ decode_ignore ys"
  by (simp add: decode_ignore_def)

lemma char_of_zero: "char_of (0::int) = CHR 0x00"
  by (simp add: char_of_def)

lemma decode_ignore_zeros: "decode_ignore (replicate n 0) = replicate n (CHR 0x00)"
  by (induction n) (simp_all add: decode_ignore_def char_of_zero)

lemma decode_ignore_encode_ascii:
  "list_all (\<lambda>c. (of_char c :: byte) < 128) s \<Longrightarrow> decode_ignore (encode_ascii s) = s"
  by (induction s) (simp_all add: decode_ignore_def encode_ascii_def char_of_uint_of_char)

lemma not_linebreak_CR: "\<not> is_linebreak c \<Longrightarrow> c \<noteq> CHR 0x0D"
  by (auto simp: is_linebreak_def)

lemma splitlines_from_line:
  "list_all (\<lambda>c. \<not> is_linebreak c) l \<Longrightarrow>
   splitlines_from cur (l @ CHR 0x0A # rest) = (rev cur @ l) # splitlines_from [] rest"
proof (induction l arbitrary: cur)
  case Nil
  show ?case by (cases rest) (simp_all add: is_linebreak_def)
next
  case (Cons a l)
  then have a: "\<not> is_linebreak a" and l: "list_all (\<lambda>c. \<not> is_linebreak c) l" by simp_all
  obtain d cs where dcs: "l @ CHR 0x0A # rest = d # cs" by (cases "l @ CHR 0x0A # rest") auto
  have "splitlines_from cur ((a # l) @ CHR 0x0A # rest) = splitlines_from (a # cur) (l @ CHR 0x0A # rest)"
    using a not_linebreak_CR[OF a] by (simp add: dcs)
  also have "\<dots> = (rev (a # cur) @ l) # splitlines_from [] rest"
    by (rule Cons.IH[OF l])
  finally show ?case by simp
qed

lemma splitlines_from_last:
  "list_all (\<lambda>c. \<not> is_linebreak c) l \<Longrightarrow> l \<noteq> [] \<Longrightarrow> splitlines_from cur l = [rev cur @ l]"
proof (induction l arbitrary: cur)
  case Nil
  then show ?case by simp
next
  case (Cons a l)
  then have a: "\<not> is_linebreak a" and l: "list_all (\<lambda>c. \<not> is_linebreak c) l" by simp_all
  show ?case
  proof (cases l)
    case Nil
    then show ?thesis using a by simp
  next
    case (Cons d cs)
    then have "splitlines_from cur (a # l) = splitlines_from (a # cur) l"
      using a not_linebreak_CR[OF a] by simp
    also have "\<dots> = [rev (a # cur) @ l]"
      using Cons.IH[OF l] Cons by simp
    finally show ?thesis by simp
  qed
qed

lemma splitlines_unlines:
  "list_all (list_all (\<lambda>c. \<not> is_linebreak c)) ls \<Longrightarrow>
   list_all (\<lambda>c. \<not> is_linebreak c) pad \<Longrightarrow> pad \<noteq> [] \<Longrightarrow>
   splitlines_from [] (unlines ls @ pad) = ls @ [pad]"
proof (induction ls)
  case Nil
  then show ?case by (simp add: unlines_def splitlines_from_last)
next
  case (Cons l ls)
  then have l: "list_all (\<lambda>c. \<not> is_linebreak c) l" by simp
  have "unlines (l # ls) @ pad = l @ CHR 0x0A # (unlines ls @ pad)"
    by (simp add: unlines_def)
  then show ?case using Cons by (simp add: splitlines_from_line[OF l])
qed

text \<open>Lines of plain text: ASCII, without a line break inside.\<close>

lemma plain_ascii:
  "list_all plain_text ls \<Longrightarrow> list_all (\<lambda>c. (of_char c :: byte) < 128) (unlines ls)"
  by (induction ls) (auto simp: unlines_def plain_text_def list_all_iff)

lemma plain_no_break:
  "list_all plain_text ls \<Longrightarrow> list_all (list_all (\<lambda>c. \<not> is_linebreak c)) ls"
  by (auto simp: plain_text_def list_all_iff)

lemma read_header_block:
  assumes "readable f" and "contents f = header_block ls @ rest"
    and "list_all plain_text ls" and "length (unlines ls) < 1024"
  shows "read_header f = ls @ [replicate (1024 - length (unlines ls)) (CHR 0x00)]"
proof -
  let ?n = "1024 - length (unlines ls)"
  have len: "length (header_block ls) = 1024"
    using assms(4) by (simp add: length_header_block)
  then have "take 1024 (contents f) = header_block ls"
    by (simp add: assms(2))
  then have "decode_ignore (take 1024 (contents f)) = unlines ls @ replicate ?n (CHR 0x00)"
    by (simp add: header_block_def decode_ignore_append decode_ignore_zeros
          decode_ignore_encode_ascii[OF plain_ascii[OF assms(3)]])
  moreover have "list_all (\<lambda>c. \<not> is_linebreak c) (replicate ?n (CHR 0x00))"
    by (simp add: list_all_iff is_linebreak_def)
  moreover have "replicate ?n (CHR 0x00) \<noteq> []"
    using assms(4) by simp
  ultimately show ?thesis
    using assms(1) splitlines_unlines[OF plain_no_break[OF assms(3)]]
    by (simp add: read_header_def splitlines_def)
qed

lemma example_lines_plain: "list_all plain_text (example_lines ''%Lat 3455.5000,S'')"
  by code_simp

section \<open>Proofs: \<^verbatim>\<open>Read_Lemi_Header.read\<close>\<close>

lemma py_bind_Inr_iff: "py_bind m f = Inr y \<longleftrightarrow> (\<exists>x. m = Inr x \<and> f x = Inr y)"
  by (cases m) (simp_all add: py_bind_def)

lemma py_bind_Inl: "m = Inl e \<Longrightarrow> py_bind m f = Inl e"
  by (simp add: py_bind_def)

lemma dom_metadata: "dom (metadata num dt cs pos) = set metadata_keys"
  by (auto simp: metadata_def metadata_keys_def)

lemma metadata_not_empty: "metadata num dt cs pos \<noteq> Map.empty"
proof
  assume "metadata num dt cs pos = Map.empty"
  then have "dom (metadata num dt cs pos) = {}" by simp
  then show False by (simp add: dom_metadata metadata_keys_def)
qed

lemma read_unreadable: "\<not> readable f \<Longrightarrow> read f = Map.empty"
  by (simp add: read_def read_header_def)

lemma read_no_header: "read_header f = [] \<Longrightarrow> read f = Map.empty"
  by (simp add: read_def)

lemma read_body_error: "read_body (read_header f) = Inl e \<Longrightarrow> read f = Map.empty"
  by (cases "read_header f") (simp_all add: read_def)

lemma read_cases:
  "read f = Map.empty \<or>
   (\<exists>num dt cs pos.
      extract_instrument_number (read_header f) = Inr num \<and>
      extract_deployment_time (read_header f) = Inr dt \<and>
      extract_coefficients (read_header f) = Inr cs \<and>
      extract_coordinates (read_header f) = Inr pos \<and>
      read f = metadata num dt cs pos)"
proof (cases "read_body (read_header f)")
  case (Inl e)
  then show ?thesis by (simp add: read_body_error)
next
  case (Inr md)
  then obtain num dt cs pos where
    "extract_instrument_number (read_header f) = Inr num"
    "extract_deployment_time (read_header f) = Inr dt"
    "extract_coefficients (read_header f) = Inr cs"
    "extract_coordinates (read_header f) = Inr pos"
    "md = metadata num dt cs pos"
    by (auto simp: read_body_def py_bind_Inr_iff)
  moreover have "read f = md \<or> read f = Map.empty"
    using Inr by (cases "read_header f") (simp_all add: read_def)
  ultimately show ?thesis by blast
qed

lemma flip_range: "(- b \<le> x * (if p then - 1 else 1) \<and> x * (if p then - 1 else 1) \<le> b) = (\<bar>x\<bar> \<le> (b::real))"
  by auto

lemma good_file_header:
  "read_header good_file = example_lines ''%Lat 3455.5000,S'' @ [replicate 842 (CHR 0x00)]"
proof -
  have "read_header good_file =
        example_lines ''%Lat 3455.5000,S'' @
        [replicate (1024 - length (unlines (example_lines ''%Lat 3455.5000,S''))) (CHR 0x00)]"
    by (rule read_header_block[where rest = "example_records @ [1, 2, 3]"])
       (simp_all add: good_file_def example_lines_plain example_lines_length)
  then show ?thesis by (simp add: example_lines_length)
qed

lemma malformed_lines_plain: "list_all plain_text (example_lines ''%Lat 3455.5000'')"
  by code_simp

lemma malformed_lines_length: "length (unlines (example_lines ''%Lat 3455.5000'')) = 180"
  by code_simp

lemma malformed_file_header:
  "read_header malformed_file = example_lines ''%Lat 3455.5000'' @ [replicate 844 (CHR 0x00)]"
proof -
  have "read_header malformed_file =
        example_lines ''%Lat 3455.5000'' @
        [replicate (1024 - length (unlines (example_lines ''%Lat 3455.5000''))) (CHR 0x00)]"
    by (rule read_header_block[where rest = "example_records"])
       (simp_all add: malformed_file_def malformed_lines_plain malformed_lines_length)
  then show ?thesis by (simp add: malformed_lines_length)
qed

lemma malformed_coordinates:
  "extract_coordinates (example_lines ''%Lat 3455.5000'' @ [replicate 844 (CHR 0x00)]) = Inl ValueError"
  by code_simp

lemma good_file_latitude: "read good_file ''latitude'' = Some (PyFloat (- (1397 / 40)))"
proof -
  have "(case read_body (example_lines ''%Lat 3455.5000,S'' @ [replicate 842 (CHR 0x00)]) of
           Inr md \<Rightarrow> md ''latitude'' | Inl e \<Rightarrow> None) = Some (PyFloat (- (1397 / 40)))"
    by code_simp
  then show ?thesis
    by (simp add: read_def good_file_header example_lines_def split: sum.splits)
qed

lemma north_lines_plain: "list_all plain_text (example_lines ''%Lat 9030.0000,N'')"
  by code_simp

lemma north_lines_length: "length (unlines (example_lines ''%Lat 9030.0000,N'')) = 182"
  by code_simp

lemma north_file_header:
  "read_header north_file = example_lines ''%Lat 9030.0000,N'' @ [replicate 842 (CHR 0x00)]"
proof -
  have "read_header north_file =
        example_lines ''%Lat 9030.0000,N'' @
        [replicate (1024 - length (unlines (example_lines ''%Lat 9030.0000,N''))) (CHR 0x00)]"
    by (rule read_header_block[where rest = "example_records"])
       (simp_all add: north_file_def north_lines_plain north_lines_length)
  then show ?thesis by (simp add: north_lines_length)
qed

lemma north_coordinates:
  "extract_coordinates (example_lines ''%Lat 9030.0000,N'' @ [replicate 842 (CHR 0x00)]) =
     Inr (181 / 2, 693 / 5, 211 / 2)"
  by code_simp

lemma good_coordinates:
  "extract_coordinates (example_lines ''%Lat 3455.5000,S'' @ [replicate 842 (CHR 0x00)]) =
     Inr (- (1397 / 40), 693 / 5, 211 / 2)"
  by code_simp

lemma good_fields:
  "py_bind (getitem (example_lines ''%Lat 3455.5000,S'' @ [replicate 842 (CHR 0x00)]) 9) coordinate_fields
     = Inr (''3455.5000'', ''S'')"
  "py_bind (getitem (example_lines ''%Lat 3455.5000,S'' @ [replicate 842 (CHR 0x00)]) 10) coordinate_fields
     = Inr (''13836.0000'', ''E'')"
  "py_int (take 2 ''3455.5000'') = Inr 34" "py_float (drop 2 ''3455.5000'') = Inr (111 / 2)"
  "py_int (take 3 ''13836.0000'') = Inr 138" "py_float (drop 3 ''13836.0000'') = Inr 36"
  by code_simp+

text \<open>
  Claim C5.  \<^verbatim>\<open>read\<close> returns the empty dictionary when the file cannot be
  opened, when it has no header line, and when any one of the four extraction
  steps (instrument number, deployment time, coefficients, coordinates) raises.
  Whatever the file, the result is either empty or has exactly the seven metadata
  keys, each holding the value of a step that succeeded: a dictionary with only
  some of the fields is never returned.
\<close>

theorem C5_header_all_or_nothing:
  "(\<not> readable f \<longrightarrow> read f = Map.empty) \<and>
   (read_header f = [] \<longrightarrow> read f = Map.empty) \<and>
   (extract_instrument_number (read_header f) = Inl e \<longrightarrow> read f = Map.empty) \<and>
   (extract_deployment_time (read_header f) = Inl e \<longrightarrow> read f = Map.empty) \<and>
   (extract_coefficients (read_header f) = Inl e \<longrightarrow> read f = Map.empty) \<and>
   (extract_coordinates (read_header f) = Inl e \<longrightarrow> read f = Map.empty) \<and>
   (read f = Map.empty \<or>
    dom (read f) = set metadata_keys \<and>
    (\<exists>num dt cs pos.
       extract_instrument_number (read_header f) = Inr num \<and>
       extract_deployment_time (read_header f) = Inr dt \<and>
       extract_coefficients (read_header f) = Inr cs \<and>
       extract_coordinates (read_header f) = Inr pos \<and>
       read f = metadata num dt cs pos))"
proof (intro conjI impI)
  assume "\<not> readable f"
  then show "read f = Map.empty" by (rule read_unreadable)
next
  assume "read_header f = []"
  then show "read f = Map.empty" by (rule read_no_header)
next
  assume "extract_instrument_number (read_header f) = Inl e"
  then have "read_body (read_header f) = Inl e"
    by (simp add: read_body_def py_bind_def)
  then show "read f = Map.empty" by (rule read_body_error)
next
  assume "extract_deployment_time (read_header f) = Inl e"
  then have "\<exists>e'. read_body (read_header f) = Inl e'"
    by (simp add: read_body_def py_bind_def split: sum.splits)
  then show "read f = Map.empty" by (auto intro: read_body_error)
next
  assume "extract_coefficients (read_header f) = Inl e"
  then have "\<exists>e'. read_body (read_header f) = Inl e'"
    by (simp add: read_body_def py_bind_def split: sum.splits)
  then show "read f = Map.empty" by (auto intro: read_body_error)
next
  assume "extract_coordinates (read_header f) = Inl e"
  then have "\<exists>e'. read_body (read_header f) = Inl e'"
    by (simp add: read_body_def py_bind_def split: sum.splits)
  then show "read f = Map.empty" by (auto intro: read_body_error)
next
  from read_cases[of f]
  show "read f = Map.empty \<or>
    dom (read f) = set metadata_keys \<and>
    (\<exists>num dt cs pos.
       extract_instrument_number (read_header f) = Inr num \<and>
       extract_deployment_time (read_header f) = Inr dt \<and>
       extract_coefficients (read_header f) = Inr cs \<and>
       extract_coordinates (read_header f) = Inr pos \<and>
       read f = metadata num dt cs pos)"
    by (metis dom_metadata)
qed

theorem C5_header_all_or_nothing_witness:
  "read unreadable_file = Map.empty \<and>
   read empty_file = Map.empty \<and>
   read malformed_file = Map.empty \<and>
   dom (read good_file) = set metadata_keys"
proof -
  have "\<not> readable unreadable_file" by (simp add: unreadable_file_def)
  with C5_header_all_or_nothing[of unreadable_file ValueError]
  have 1: "read unreadable_file = Map.empty" by blast
  have "read_header empty_file = []"
    by (simp add: read_header_def empty_file_def decode_ignore_def splitlines_def)
  with C5_header_all_or_nothing[of empty_file ValueError]
  have 2: "read empty_file = Map.empty" by blast
  have "extract_coordinates (read_header malformed_file) = Inl ValueError"
    by (simp add: malformed_file_header malformed_coordinates)
  with C5_header_all_or_nothing[of malformed_file ValueError]
  have 3: "read malformed_file = Map.empty" by blast
  have "read good_file \<noteq> Map.empty"
    using good_file_latitude by auto
  with C5_header_all_or_nothing[of good_file ValueError]
  have 4: "dom (read good_file) = set metadata_keys" by blast
  from 1 2 3 4 show ?thesis by simp
qed


section \<open>Proofs: coordinates\<close>

text \<open>
  Claim C4, as stated, puts the latitude of every well-formed header in
  [-90, 90].  The header of \<open>north_file\<close> has the latitude field
  \<^verbatim>\<open>9030.0000,N\<close>, 90 degrees and 30 minutes: every line parses, and the
  latitude is 90.5.
\<close>

theorem C4_counterexample:
  "extract_coordinates (read_header north_file) = Inr (181 / 2, 693 / 5, 211 / 2) \<and>
   \<not> (181 / 2 \<le> (90::real))"
  by (simp add: north_file_header north_coordinates)

text \<open>
  Claim C4, amended.  When the coordinate lines of a header parse, the latitude
  is the integer of the first two characters plus the float of the rest divided
  by 60, negated when the hemisphere letter is S, and the longitude is the
  integer of the first three characters plus the float of the rest divided by
  60, negated when the letter is W.  The parser checks no range: the latitude is
  in [-90, 90] exactly when the absolute value of degrees + minutes/60 written in
  the header is at most 90, and the longitude in [-180, 180] exactly when it is
  at most 180.
\<close>

theorem C4_coordinates:
  assumes "extract_coordinates header = Inr (latitude, longitude, elevation)"
  shows "\<exists>lat lat_dir lon lon_dir dlat mlat dlon mlon.
      py_bind (getitem header 9) coordinate_fields = Inr (lat, lat_dir) \<and>
      py_bind (getitem header 10) coordinate_fields = Inr (lon, lon_dir) \<and>
      py_int (take 2 lat) = Inr dlat \<and> py_float (drop 2 lat) = Inr mlat \<and>
      py_int (take 3 lon) = Inr dlon \<and> py_float (drop 3 lon) = Inr mlon \<and>
      latitude = (real_of_int dlat + mlat / 60) * (if strip lat_dir = ''S'' then - 1 else 1) \<and>
      longitude = (real_of_int dlon + mlon / 60) * (if strip lon_dir = ''W'' then - 1 else 1) \<and>
      ((- 90 \<le> latitude \<and> latitude \<le> 90) = (\<bar>real_of_int dlat + mlat / 60\<bar> \<le> 90)) \<and>
      ((- 180 \<le> longitude \<and> longitude \<le> 180) = (\<bar>real_of_int dlon + mlon / 60\<bar> \<le> 180))"
proof -
  from assms obtain l9 lat l10 lon where
    l9: "getitem header 9 = Inr l9" and lat: "coordinate_fields l9 = Inr lat" and
    l10: "getitem header 10 = Inr l10" and lon: "coordinate_fields l10 = Inr lon" and
    la: "decimal_degrees 2 ''S'' (fst lat) (snd lat) = Inr latitude" and
    lo: "decimal_degrees 3 ''W'' (fst lon) (snd lon) = Inr longitude"
    by (auto simp: extract_coordinates_def py_bind_Inr_iff)
  from la obtain dlat mlat where
    dlat: "py_int (take 2 (fst lat)) = Inr dlat" and mlat: "py_float (drop 2 (fst lat)) = Inr mlat" and
    latitude: "latitude = (real_of_int dlat + mlat / 60) * (if strip (snd lat) = ''S'' then - 1 else 1)"
    by (auto simp: decimal_degrees_def py_bind_Inr_iff)
  from lo obtain dlon mlon where
    dlon: "py_int (take 3 (fst lon)) = Inr dlon" and mlon: "py_float (drop 3 (fst lon)) = Inr mlon" and
    longitude: "longitude = (real_of_int dlon + mlon / 60) * (if strip (snd lon) = ''W'' then - 1 else 1)"
    by (auto simp: decimal_degrees_def py_bind_Inr_iff)
  have r1: "(- 90 \<le> latitude \<and> latitude \<le> 90) = (\<bar>real_of_int dlat + mlat / 60\<bar> \<le> 90)"
    unfolding latitude by (rule flip_range)
  have r2: "(- 180 \<le> longitude \<and> longitude \<le> 180) = (\<bar>real_of_int dlon + mlon / 60\<bar> \<le> 180)"
    unfolding longitude by (rule flip_range)
  have "py_bind (getitem header 9) coordinate_fields = Inr (fst lat, snd lat)"
    by (simp add: l9 lat py_bind_def)
  moreover have "py_bind (getitem header 10) coordinate_fields = Inr (fst lon, snd lon)"
    by (simp add: l10 lon py_bind_def)
  ultimately show ?thesis
    using dlat mlat dlon mlon latitude longitude r1 r2 by blast
qed

theorem C4_coordinates_witness:
  "extract_coordinates (read_header good_file) = Inr (- (1397 / 40), 693 / 5, 211 / 2) \<and>
   - (1397 / 40) = (real_of_int 34 + (111 / 2) / 60) * (- 1 :: real) \<and>
   693 / 5 = (real_of_int 138 + 36 / 60) * (1 :: real) \<and>
   ((- 90 \<le> - (1397 / 40 :: real) \<and> - (1397 / 40 :: real) \<le> 90) = (\<bar>real_of_int 34 + (111 / 2) / 60\<bar> \<le> (90 :: real))) \<and>
   ((- 180 \<le> (693 / 5 :: real) \<and> (693 / 5 :: real) \<le> 180) = (\<bar>real_of_int 138 + 36 / 60\<bar> \<le> (180 :: real)))"
proof -
  have ok: "extract_coordinates (read_header good_file) = Inr (- (1397 / 40), 693 / 5, 211 / 2)"
    by (simp add: good_file_header good_coordinates)
  from C4_coordinates[OF ok] obtain lat lat_dir lon lon_dir dlat mlat dlon mlon where
      "py_bind (getitem (read_header good_file) 9) coordinate_fields = Inr (lat, lat_dir)"
      "py_bind (getitem (read_header good_file) 10) coordinate_fields = Inr (lon, lon_dir)"
      "py_int (take 2 lat) = Inr dlat" "py_float (drop 2 lat) = Inr mlat"
      "py_int (take 3 lon) = Inr dlon" "py_float (drop 3 lon) = Inr mlon"
      "- (1397 / 40) = (real_of_int dlat + mlat / 60) * (if strip lat_dir = ''S'' then - 1 else 1)"
      "693 / 5 = (real_of_int dlon + mlon / 60) * (if strip lon_dir = ''W'' then - 1 else 1)"
      "((- 90 \<le> - (1397 / 40 :: real) \<and> - (1397 / 40 :: real) \<le> 90) = (\<bar>real_of_int dlat + mlat / 60\<bar> \<le> 90))"
      "((- 180 \<le> (693 / 5 :: real) \<and> (693 / 5 :: real) \<le> 180) = (\<bar>real_of_int dlon + mlon / 60\<bar> \<le> 180))"
    by blast
  then show ?thesis
    using ok by (simp add: good_file_header good_fields strip_def is_space_def)
qed

section \<open>Proofs: the loop over the files of a site\<close>

lemma file_body_None:
  assumes "table_of f = None"
  shows "file_body sid f (read f) st = Inl KeyError \<or> file_body sid f (read f) st = Inl AttributeError"
  using assms
  by (auto simp: table_of_def file_body_def lookup_def py_bind_def split: option.splits)

lemma file_body_Some:
  assumes "table_of f = Some df"
  shows "file_body sid f (read f) st =
         Inr (st\<lparr> start_time := py_or (start_time st) (index_min df),
                  finish_time := Some (index_max df),
                  sample_rate := (case sample_rate st of
                                    None \<Rightarrow> Some (first_second df)
                                  | Some r \<Rightarrow> Some r),
                  all_data := all_data st @ [site_rows sid df] \<rparr>)"
  using assms
  by (auto simp: table_of_def file_body_def lookup_def py_bind_def split: option.splits)

lemma file_step_None:
  assumes "table_of (snd e) = None"
  shows "\<exists>err. file_step sid e st =
           st\<lparr> site_log := site_log st @ [ProcessingFile (fst e), ErrorProcessing (fst e) err],
               header_info := Some (read (snd e)) \<rparr>"
proof -
  let ?st1 = "st\<lparr> site_log := site_log st @ [ProcessingFile (fst e)],
                   header_info := Some (read (snd e)) \<rparr>"
  from file_body_None[OF assms, of sid ?st1] obtain err where
    "file_body sid (snd e) (read (snd e)) ?st1 = Inl err" by blast
  then have "file_step sid e st =
           st\<lparr> site_log := site_log st @ [ProcessingFile (fst e), ErrorProcessing (fst e) err],
               header_info := Some (read (snd e)) \<rparr>"
    by (simp add: file_step_def Let_def)
  then show ?thesis by blast
qed

lemma file_step_Some:
  assumes "table_of (snd e) = Some df"
  shows "file_step sid e st =
           st\<lparr> site_log := site_log st @ [ProcessingFile (fst e)],
               header_info := Some (read (snd e)),
               start_time := py_or (start_time st) (index_min df),
               finish_time := Some (index_max df),
               sample_rate := (case sample_rate st of
                                 None \<Rightarrow> Some (first_second df)
                               | Some r \<Rightarrow> Some r),
               all_data := all_data st @ [site_rows sid df] \<rparr>"
  by (simp add: file_step_def Let_def file_body_Some[OF assms])

lemma file_step_header: "header_info (file_step sid e st) = Some (read (snd e))"
proof (cases "table_of (snd e)")
  case None
  from file_step_None[OF this, of sid st] show ?thesis by auto
next
  case (Some df)
  then show ?thesis by (simp add: file_step_Some)
qed

lemma file_step_processed:
  "processed_files (site_log (file_step sid e st)) = processed_files (site_log st) @ [fst e]"
proof -
  have app: "\<And>l n. processed_files (l @ [ProcessingFile n]) = processed_files l @ [n]"
  proof -
    fix l n show "processed_files (l @ [ProcessingFile n]) = processed_files l @ [n]"
      by (induction l rule: processed_files.induct) simp_all
  qed
  have app2: "\<And>l n m err. processed_files (l @ [ProcessingFile n, ErrorProcessing m err]) = processed_files l @ [n]"
  proof -
    fix l n m err show "processed_files (l @ [ProcessingFile n, ErrorProcessing m err]) = processed_files l @ [n]"
      by (induction l rule: processed_files.induct) simp_all
  qed
  show ?thesis
  proof (cases "table_of (snd e)")
    case None
    from file_step_None[OF this, of sid st] show ?thesis by (auto simp: app2)
  next
    case (Some df)
    then show ?thesis by (simp add: file_step_Some app)
  qed
qed

lemma file_step_sample_rate:
  "sample_rate (file_step sid e st) =
     (case sample_rate st of
        Some r \<Rightarrow> Some r
      | None \<Rightarrow> map_option first_second (table_of (snd e)))"
proof (cases "table_of (snd e)")
  case None
  from file_step_None[OF this, of sid st] show ?thesis by (auto simp: None split: option.splits)
next
  case (Some df)
  then show ?thesis by (simp add: file_step_Some split: option.splits)
qed

lemma file_step_all_data:
  "all_data (file_step sid e st) =
     all_data st @ (case table_of (snd e) of None \<Rightarrow> [] | Some df \<Rightarrow> [site_rows sid df])"
proof (cases "table_of (snd e)")
  case None
  from file_step_None[OF this, of sid st] show ?thesis by (auto simp: None)
next
  case (Some df)
  then show ?thesis by (simp add: file_step_Some)
qed

lemma file_loop_processed:
  "processed_files (site_log (file_loop sid files st)) = processed_files (site_log st) @ map fst files"
  by (induction files arbitrary: st) (simp_all add: file_step_processed)

lemma file_loop_header:
  "files \<noteq> [] \<Longrightarrow> header_info (file_loop sid files st) = Some (read (snd (last files)))"
proof (induction files arbitrary: st)
  case Nil
  then show ?case by simp
next
  case (Cons e es)
  show ?case
  proof (cases es)
    case Nil
    then show ?thesis by (simp add: file_step_header)
  next
    case (Cons a list)
    then show ?thesis using Cons.IH by simp
  qed
qed

lemma file_loop_sample_rate_kept:
  "sample_rate st = Some r \<Longrightarrow> sample_rate (file_loop sid files st) = Some r"
  by (induction files arbitrary: st) (simp_all add: file_step_sample_rate)

lemma file_loop_sample_rate_none:
  "sample_rate st = None \<Longrightarrow> \<forall>e \<in> set files. table_of (snd e) = None \<Longrightarrow>
   sample_rate (file_loop sid files st) = None"
  by (induction files arbitrary: st) (simp_all add: file_step_sample_rate)

lemma file_loop_append:
  "file_loop sid (xs @ ys) st = file_loop sid ys (file_loop sid xs st)"
  by (induction xs arbitrary: st) simp_all

lemma file_loop_sample_rate_first:
  assumes "sample_rate st = None"
    and "\<forall>e \<in> set before. table_of (snd e) = None"
    and "table_of (snd e) = Some df"
  shows "sample_rate (file_loop sid (before @ e # after) st) = Some (first_second df)"
proof -
  have "sample_rate (file_loop sid before st) = None"
    using assms(1,2) by (rule file_loop_sample_rate_none)
  then have "sample_rate (file_step sid e (file_loop sid before st)) = Some (first_second df)"
    by (simp add: file_step_sample_rate assms(3))
  then show ?thesis
    by (simp add: file_loop_append file_loop_sample_rate_kept)
qed

lemma file_loop_all_data:
  "all_data (file_loop sid files st) =
     all_data st @ concat (map (\<lambda>e. case table_of (snd e) of None \<Rightarrow> [] | Some df \<Rightarrow> [site_rows sid df]) files)"
  by (induction files arbitrary: st) (simp_all add: file_step_all_data)


section \<open>Proofs: selection and order of the files\<close>

lemma processed_files_append:
  "processed_files (a @ b) = processed_files a @ processed_files b"
  by (induction a rule: processed_files.induct) simp_all

lemma with_keys_Inr:
  "with_keys k xs = Inr r \<Longrightarrow> map snd r = xs \<and> (\<forall>p \<in> set r. k (snd p) = Inr (fst p))"
proof (induction xs arbitrary: r)
  case Nil
  then show ?case by simp
next
  case (Cons x xs)
  from Cons.prems obtain n r' where n: "k x = Inr n" and r': "with_keys k xs = Inr r'"
    and r: "r = (n, x) # r'"
    by (auto simp: py_bind_Inr_iff)
  from Cons.IH[OF r'] n r show ?case by simp
qed

lemma with_keys_ok:
  "\<forall>x \<in> set xs. \<exists>n. k x = Inr n \<Longrightarrow> \<exists>r. with_keys k xs = Inr r"
proof (induction xs)
  case Nil
  then show ?case by simp
next
  case (Cons x xs)
  then obtain n r where "k x = Inr n" "with_keys k xs = Inr r" by auto
  then show ?case by (simp add: py_bind_def)
qed

lemma with_keys_fail:
  "x \<in> set xs \<Longrightarrow> k x = Inl err \<Longrightarrow> \<exists>err'. with_keys k xs = Inl err'"
proof (induction xs)
  case Nil
  then show ?case by simp
next
  case (Cons y ys)
  show ?case
  proof (cases "k y")
    case (Inl e)
    then show ?thesis by (simp add: py_bind_def)
  next
    case (Inr n)
    with Cons have "\<exists>err'. with_keys k ys = Inl err'" by auto
    then show ?thesis using Inr by (auto simp: py_bind_def)
  qed
qed

lemma sorted_by_ok:
  assumes "\<forall>x \<in> set xs. \<exists>n. k x = Inr n"
  shows "\<exists>ys keys. sorted_by k xs = Inr ys \<and> mset ys = mset xs \<and>
           map k ys = map Inr keys \<and> sorted keys"
proof -
  from with_keys_ok[OF assms] obtain r where r: "with_keys k xs = Inr r" by blast
  from with_keys_Inr[OF r] have xs: "map snd r = xs"
    and key: "\<forall>p \<in> set r. k (snd p) = Inr (fst p)" by simp_all
  let ?s = "sort_key fst r"
  have 1: "sorted_by k xs = Inr (map snd ?s)"
    by (simp add: sorted_by_def r py_bind_def)
  have "mset (map snd ?s) = image_mset snd (mset r)" by simp
  also have "\<dots> = mset (map snd r)" by simp
  finally have 2: "mset (map snd ?s) = mset xs" by (simp add: xs)
  have "\<forall>p \<in> set ?s. k (snd p) = Inr (fst p)" using key by simp
  then have 3: "map k (map snd ?s) = map Inr (map fst ?s)" by simp
  have 4: "sorted (map fst ?s)" by (rule sorted_sort_key)
  from 1 2 3 4 show ?thesis by blast
qed

lemma sorted_by_fail:
  "x \<in> set xs \<Longrightarrow> k x = Inl err \<Longrightarrow> \<exists>err'. sorted_by k xs = Inl err'"
  using with_keys_fail[of x xs k err] by (auto simp: sorted_by_def py_bind_def)

lemma process_site_processed:
  assumes "dir (SiteName info) = Some entries" and "binary_files entries = Inr files"
  shows "processed_files (fst (process_site dir info sid)) = map fst files"
proof (cases files)
  case Nil
  then show ?thesis using assms by (simp add: process_site_def)
next
  case (Cons e es)
  let ?st = "file_loop sid (e # es) (initial_state [HandlingSite (SiteName info)])"
  have "processed_files (site_log ?st) = map fst files"
    by (simp only: file_loop_processed Cons) (simp add: initial_state_def)
  then show ?thesis
    using assms Cons
    by (auto simp: process_site_def Let_def processed_files_append split: sum.splits)
qed

text \<open>
  Claim C6, amended.  When every name ending in \<^verbatim>\<open>.B423\<close> starts with an integer
  before its first dot, the files the site job works on are exactly the entries
  ending in \<^verbatim>\<open>.B423\<close>, in ascending order of that integer, and the loop takes
  them up in exactly that order.  When some name ending in \<^verbatim>\<open>.B423\<close> has no
  such integer, \<^verbatim>\<open>sorted\<close> raises and the site job ends with that exception
  before any file is taken up.
\<close>

theorem C6_file_order:
  "(dir (SiteName info) = Some entries \<and>
    (\<forall>e \<in> set entries. endswith (fst e) ''.B423'' \<longrightarrow> (\<exists>n. file_key (fst e) = Inr n)) \<longrightarrow>
      (\<exists>files keys.
         binary_files entries = Inr files \<and>
         mset files = mset (filter (\<lambda>e. endswith (fst e) ''.B423'') entries) \<and>
         map (\<lambda>e. file_key (fst e)) files = map Inr keys \<and> sorted keys \<and>
         processed_files (fst (process_site dir info sid)) = map fst files)) \<and>
   (dir (SiteName info) = Some entries \<and>
    (\<exists>e \<in> set entries. endswith (fst e) ''.B423'' \<and> (\<exists>err. file_key (fst e) = Inl err)) \<longrightarrow>
      (\<exists>err. process_site dir info sid = ([HandlingSite (SiteName info)], Inl err)))"
proof (intro conjI impI)
  assume a: "dir (SiteName info) = Some entries \<and>
    (\<forall>e \<in> set entries. endswith (fst e) ''.B423'' \<longrightarrow> (\<exists>n. file_key (fst e) = Inr n))"
  let ?sel = "filter (\<lambda>e. endswith (fst e) ''.B423'') entries"
  from a have "\<forall>x \<in> set ?sel. \<exists>n. file_key (fst x) = Inr n" by simp
  from sorted_by_ok[OF this] obtain files keys where
    f: "binary_files entries = Inr files" "mset files = mset ?sel"
       "map (\<lambda>e. file_key (fst e)) files = map Inr keys" "sorted keys"
    by (auto simp: binary_files_def)
  from a f(1) have "processed_files (fst (process_site dir info sid)) = map fst files"
    by (simp add: process_site_processed)
  with f show "\<exists>files keys.
         binary_files entries = Inr files \<and>
         mset files = mset ?sel \<and>
         map (\<lambda>e. file_key (fst e)) files = map Inr keys \<and> sorted keys \<and>
         processed_files (fst (process_site dir info sid)) = map fst files"
    by blast
next
  assume b: "dir (SiteName info) = Some entries \<and>
    (\<exists>e \<in> set entries. endswith (fst e) ''.B423'' \<and> (\<exists>err. file_key (fst e) = Inl err))"
  then obtain e err where "e \<in> set (filter (\<lambda>e. endswith (fst e) ''.B423'') entries)"
    "file_key (fst e) = Inl err" by auto
  from sorted_by_fail[of e _ "\<lambda>e. file_key (fst e)", OF this]
  obtain err' where "binary_files entries = Inl err'" by (auto simp: binary_files_def)
  with b show "\<exists>err. process_site dir info sid = ([HandlingSite (SiteName info)], Inl err)"
    by (simp add: process_site_def)
qed

lemmas key_eval = file_key_def py_bind_def getitem_def py_int_def strip_def is_space_def
  signed_digits_def is_digit_def int_of_digits_def digit_val_def endswith_def

lemma example_keys:
  "file_key ''1719964800.B423'' = Inr 1719964800"
  "file_key ''1720000000.B423'' = Inr 1720000000"
  "file_key ''notes.B423'' = Inl ValueError"
  by (simp_all add: key_eval)

lemma example_files_A:
  "binary_files [(''1720000000.B423'', good_file), (''notes.txt'', empty_file),
                 (''1719964800.B423'', good_file)] =
     Inr [(''1719964800.B423'', good_file), (''1720000000.B423'', good_file)]"
  by (simp add: binary_files_def sorted_by_def example_keys py_bind_def endswith_def)

lemma example_files_B:
  "binary_files [(''1719964800.B423'', good_file), (''1720000000.B423'', empty_file)] =
     Inr [(''1719964800.B423'', good_file), (''1720000000.B423'', empty_file)]"
  by (simp add: binary_files_def sorted_by_def example_keys py_bind_def endswith_def)


lemma example_files_E: "binary_files [(''notes.B423'', good_file)] = Inl ValueError"
  by (simp add: binary_files_def sorted_by_def example_keys py_bind_def endswith_def)

text \<open>
  Claim C6, as stated, holds for every set of candidate names.  Folder E of the
  example directory has one entry, \<^verbatim>\<open>notes.B423\<close>: it ends in \<^verbatim>\<open>.B423\<close>, the
  key \<^verbatim>\<open>int('notes')\<close> raises ValueError inside \<^verbatim>\<open>sorted\<close>, and the site job
  ends with that exception: nothing is selected, sorted or processed.
\<close>

theorem C6_counterexample:
  "example_directory ''E'' = Some [(''notes.B423'', good_file)] \<and>
   endswith ''notes.B423'' ''.B423'' \<and>
   process_site example_directory (example_site ''E'') 4 = ([HandlingSite ''E''], Inl ValueError)"
  by (simp add: process_site_def example_directory_def example_site_def example_files_E endswith_def)

theorem C6_file_order_witness:
  "binary_files [(''1720000000.B423'', good_file), (''notes.txt'', empty_file),
                 (''1719964800.B423'', good_file)] =
     Inr [(''1719964800.B423'', good_file), (''1720000000.B423'', good_file)] \<and>
   processed_files (fst (process_site example_directory (example_site ''A'') 0)) =
     [''1719964800.B423'', ''1720000000.B423''] \<and>
   process_site example_directory (example_site ''E'') 4 = ([HandlingSite ''E''], Inl ValueError)"
proof -
  let ?A = "[(''1720000000.B423'', good_file), (''notes.txt'', empty_file),
             (''1719964800.B423'', good_file)]"
  have dirA: "example_directory (SiteName (example_site ''A'')) = Some ?A"
    by (simp add: example_directory_def example_site_def)
  have keysA: "\<forall>e \<in> set ?A. endswith (fst e) ''.B423'' \<longrightarrow> (\<exists>n. file_key (fst e) = Inr n)"
    by (simp add: example_keys endswith_def)
  from C6_file_order[of example_directory "example_site ''A''" ?A 0] dirA keysA
  obtain files keys where
    "binary_files ?A = Inr files"
    "processed_files (fst (process_site example_directory (example_site ''A'') 0)) = map fst files"
    by blast
  then have 1: "processed_files (fst (process_site example_directory (example_site ''A'') 0)) =
     [''1719964800.B423'', ''1720000000.B423'']"
    by (auto simp: example_files_A)
  let ?E = "[(''notes.B423'', good_file)]"
  have dirE: "example_directory (SiteName (example_site ''E'')) = Some ?E"
    by (simp add: example_directory_def example_site_def)
  have keysE: "\<exists>e \<in> set ?E. endswith (fst e) ''.B423'' \<and> (\<exists>err. file_key (fst e) = Inl err)"
    by (simp add: example_keys endswith_def)
  from C6_file_order[of example_directory "example_site ''E''" ?E 4] dirE keysE
  obtain err where e: "process_site example_directory (example_site ''E'') 4 =
      ([HandlingSite (SiteName (example_site ''E''))], Inl err)"
    by blast
  have "process_site example_directory (example_site ''E'') 4 = ([HandlingSite ''E''], Inl ValueError)"
    by (simp add: process_site_def example_directory_def example_site_def example_files_E)
  with 1 show ?thesis by (simp add: example_files_A)
qed

section \<open>Proofs: the example files\<close>

lemma read_nonempty:
  "read_header f \<noteq> [] \<Longrightarrow>
   read f = (case read_body (read_header f) of Inl e \<Rightarrow> Map.empty | Inr md \<Rightarrow> md)"
  by (cases "read_header f") (simp_all add: read_def)

lemma good_lines_eval:
  "extract_instrument_number (example_lines ''%Lat 3455.5000,S'' @ [replicate 842 (CHR 0x00)]) = Inr (Some 123)"
  "extract_deployment_time (example_lines ''%Lat 3455.5000,S'' @ [replicate 842 (CHR 0x00)]) =
     Inr (DateTime 2024 7 3 0 0 0)"
  "extract_coefficients (example_lines ''%Lat 3455.5000,S'' @ [replicate 842 (CHR 0x00)]) =
     Inr [(''Ae2'', 1 / 4), (''Ke2'', 1), (''Ae1'', 0), (''Ke1'', 1), (''Az'', 0), (''Kmz'', 1),
          (''Ay'', 0), (''Kmy'', 2), (''Ax'', 1), (''Kmx'', 1 / 2)]"
  by code_simp+

lemma good_file_read:
  "read good_file =
     metadata (Some 123) (DateTime 2024 7 3 0 0 0)
       [(''Ae2'', 1 / 4), (''Ke2'', 1), (''Ae1'', 0), (''Ke1'', 1), (''Az'', 0), (''Kmz'', 1),
        (''Ay'', 0), (''Kmy'', 2), (''Ax'', 1), (''Kmx'', 1 / 2)]
       (- (1397 / 40), 693 / 5, 211 / 2)"
proof -
  have "read_header good_file \<noteq> []" by (simp add: good_file_header)
  then show ?thesis
    by (simp add: read_nonempty good_file_header read_body_def good_lines_eval good_coordinates
          py_bind_def)
qed

lemma good_file_table:
  "table_of good_file =
     Some [\<lparr>index = 1719964800000, tick_col = 0, Bx_cal = 51, By_cal = - 400, Bz_cal = 300,
             Ex_cal = - 1, Ey_cal = 21 / 4, sync_col = 1, stage_col = 2, CRC_col = - 3\<rparr>,
           \<lparr>index = 1719964800500, tick_col = 500, Bx_cal = 103 / 2, By_cal = - 402, Bz_cal = 301,
             Ex_cal = 0, Ey_cal = 25 / 4, sync_col = 1, stage_col = 2, CRC_col = 7\<rparr>,
           \<lparr>index = 1719964801000, tick_col = 0, Bx_cal = 52, By_cal = - 404, Bz_cal = 302,
             Ex_cal = 1, Ey_cal = 29 / 4, sync_col = 0, stage_col = 2, CRC_col = 9\<rparr>]"
proof -
  let ?cs = "[(''Ae2'', 1 / 4), (''Ke2'', 1), (''Ae1'', 0), (''Ke1'', 1), (''Az'', 0), (''Kmz'', 1),
        (''Ay'', 0), (''Kmy'', 2), (''Ax'', 1), (''Kmx'', 1 / 2 :: real)]"
  let ?self = "\<lparr> data_file = good_file, data_coefficients = map_of ?cs, data = None \<rparr>"
  have c: "read good_file ''coefficients'' = Some (PyDict ?cs)"
    by (simp add: good_file_read metadata_def)
  have "from_binary_body ?self =
     Inr (map (calibrated_row (1 / 2) 1 2 0 1 0 1 0 1 (1 / 4))
              (fromfile (drop 1024 (contents (data_file ?self)))))"
    by (rule from_binary_body_Inr) (simp_all add: good_file_def)
  then have "fst (from_binary ?self) =
     Some (map (calibrated_row (1 / 2) 1 2 0 1 0 1 0 1 (1 / 4))
              (fromfile (drop 1024 (contents good_file))))"
    by (simp add: from_binary_def)
  then show ?thesis
    by (simp add: table_of_def c load_data_def good_file_records calibrated_row_def
          to_datetime_ms_def)
qed

lemma empty_file_read: "read empty_file = Map.empty"
  by (simp add: read_def read_header_def empty_file_def decode_ignore_def splitlines_def)

lemma empty_file_table: "table_of empty_file = None"
  by (simp add: table_of_def empty_file_read)

lemma good_first_second:
  "first_second
     [\<lparr>index = 1719964800000, tick_col = 0, Bx_cal = 51, By_cal = - 400, Bz_cal = 300,
             Ex_cal = - 1, Ey_cal = 21 / 4, sync_col = 1, stage_col = 2, CRC_col = - 3\<rparr>,
           \<lparr>index = 1719964800500, tick_col = 500, Bx_cal = 103 / 2, By_cal = - 402, Bz_cal = 301,
             Ex_cal = 0, Ey_cal = 25 / 4, sync_col = 1, stage_col = 2, CRC_col = 7\<rparr>,
           \<lparr>index = 1719964801000, tick_col = 0, Bx_cal = 52, By_cal = - 404, Bz_cal = 302,
             Ex_cal = 1, Ey_cal = 29 / 4, sync_col = 0, stage_col = 2, CRC_col = 9\<rparr>] = 2"
  by (simp add: first_second_def index_min_def)


section \<open>Proofs: the sample rate\<close>

lemma index_min_Min:
  "df \<noteq> [] \<Longrightarrow> index_min df = Timestamp (Min (set (map index df)))"
proof (cases df)
  case Nil
  assume "df \<noteq> []" with Nil show ?thesis by simp
next
  case (Cons r rs)
  have "fold min (map index rs) (index r) = Min (set (index r # map index rs))"
    by (rule Min.set_eq_fold[symmetric])
  with Cons show ?thesis by (simp add: index_min_def)
qed

lemma first_second_Min:
  "df \<noteq> [] \<Longrightarrow>
   first_second df = length (filter (\<lambda>r. index r < Min (set (map index df)) + 1000) df)"
  by (simp add: first_second_def index_min_Min)

lemma within_second:
  assumes "df \<noteq> []"
  shows "filter (\<lambda>r. index r < Min (set (map index df)) + 1000) df =
         filter (\<lambda>r. \<bar>index r - Min (set (map index df))\<bar> < 1000) df"
proof (rule filter_cong[OF refl])
  fix r assume "r \<in> set df"
  then have "Min (set (map index df)) \<le> index r" by simp
  then show "(index r < Min (set (map index df)) + 1000) = (\<bar>index r - Min (set (map index df))\<bar> < 1000)"
    by auto
qed

lemma sorted_Min_hd:
  "df \<noteq> [] \<Longrightarrow> sorted (map index df) \<Longrightarrow> Min (set (map index df)) = index (hd df)"
proof (cases df)
  case Nil
  assume "df \<noteq> []" with Nil show ?thesis by simp
next
  case (Cons r rs)
  assume "sorted (map index df)"
  with Cons have "\<forall>x \<in> set (map index rs). index r \<le> x" by simp
  then have "Min (insert (index r) (set (map index rs))) = index r"
    by (intro Min_eqI) auto
  with Cons show ?thesis by simp
qed

lemma process_site_summary:
  assumes "dir (SiteName info) = Some entries" and "binary_files entries = Inr files"
    and "snd (process_site dir info sid) = Inr (rows, Some md)"
  shows "files \<noteq> [] \<and>
         Sample_Rate md =
           sample_rate (file_loop sid files (initial_state [HandlingSite (SiteName info)]))"
proof (cases files)
  case Nil
  with assms show ?thesis by (simp add: process_site_def)
next
  case (Cons e es)
  with assms show ?thesis
    by (auto simp: process_site_def Let_def site_metadata_def py_bind_Inr_iff
             split: sum.splits option.splits)
qed

section \<open>Proofs: the site job and the batch\<close>

lemma empty_file_step:
  "file_step sid (n, empty_file) st =
     st\<lparr> site_log := site_log st @ [ProcessingFile n, ErrorProcessing n KeyError],
         header_info := Some Map.empty \<rparr>"
  by (simp add: file_step_def Let_def empty_file_read file_body_def lookup_def py_bind_def)

lemma site_metadata_empty_header:
  "header_info st = Some Map.empty \<Longrightarrow> site_metadata sid info st = Inl KeyError"
  by (simp add: site_metadata_def lookup_def py_bind_def)

lemma site_metadata_ok:
  "header_info st = Some (metadata num dt cs pos) \<Longrightarrow>
   \<exists>md. site_metadata sid info st = Inr md"
  by (simp add: site_metadata_def metadata_def lookup_def py_bind_def format_6f_def)

lemma process_site_ok:
  assumes "dir (SiteName info) = Some entries" and "binary_files entries = Inr files"
    and "files \<noteq> []" and "read (snd (last files)) = metadata num dt cs pos"
  shows "\<exists>md. snd (process_site dir info sid) =
           Inr (concat_or_none
                  (concat (map (\<lambda>e. case table_of (snd e) of None \<Rightarrow> []
                                       | Some df \<Rightarrow> [site_rows sid df]) files)),
                Some md)"
proof -
  let ?st = "file_loop sid files (initial_state [HandlingSite (SiteName info)])"
  obtain e es where files: "files = e # es" using assms(3) by (cases files) auto
  have "header_info ?st = Some (metadata num dt cs pos)"
    using file_loop_header[OF assms(3)] assms(4) by simp
  from site_metadata_ok[OF this] obtain md where md: "site_metadata sid info ?st = Inr md"
    by blast
  have "all_data ?st =
     concat (map (\<lambda>e. case table_of (snd e) of None \<Rightarrow> [] | Some df \<Rightarrow> [site_rows sid df]) files)"
    by (simp add: file_loop_all_data initial_state_def)
  then have "snd (process_site dir info sid) =
           Inr (concat_or_none
                  (concat (map (\<lambda>e. case table_of (snd e) of None \<Rightarrow> []
                                       | Some df \<Rightarrow> [site_rows sid df]) files)),
                Some md)"
    using assms(1,2) md files by (simp add: process_site_def Let_def)
  then show ?thesis by blast
qed

lemma process_site_missing:
  "dir (SiteName info) = None \<Longrightarrow>
   process_site dir info sid =
     ([HandlingSite (SiteName info), FolderNotFound (SiteName info)], Inr (None, None))"
  by (simp add: process_site_def)

lemma binary_files_none:
  "\<forall>e \<in> set entries. \<not> endswith (fst e) ''.B423'' \<Longrightarrow> binary_files entries = Inr []"
proof -
  assume "\<forall>e \<in> set entries. \<not> endswith (fst e) ''.B423''"
  then have "filter (\<lambda>e. endswith (fst e) ''.B423'') entries = []"
    by (simp add: filter_empty_conv)
  then show ?thesis by (simp add: binary_files_def sorted_by_def py_bind_def)
qed

lemma process_site_no_files:
  "dir (SiteName info) = Some entries \<Longrightarrow>
   \<forall>e \<in> set entries. \<not> endswith (fst e) ''.B423'' \<Longrightarrow>
   process_site dir info sid =
     ([HandlingSite (SiteName info), NoFilesFound (SiteName info)], Inr (None, None))"
  by (simp add: process_site_def binary_files_none)

lemma collect_all_append:
  "collect_all dir (xs @ ys) b = collect_all dir ys (collect_all dir xs b)"
  by (induction xs arbitrary: b) simp_all

lemma collect_skip:
  "res = Inr (None, md) \<Longrightarrow> collect res b = b"
  by (simp add: collect_def)

lemma collect_all_skip:
  assumes "snd (process_site dir info sid) = Inr (None, md)"
  shows "collect_all dir (rows1 @ (sid, info) # rows2) b = collect_all dir (rows1 @ rows2) b"
  by (simp add: collect_all_append collect_skip[OF assms])

lemma collect_all_none:
  "\<forall>row \<in> set rows. \<forall>df md. snd (process_site dir (snd row) (fst row)) \<noteq> Inr (Some df, md) \<Longrightarrow>
   batch_data (collect_all dir rows b) = batch_data b \<and>
   metadata_list (collect_all dir rows b) = metadata_list b"
proof (induction rows arbitrary: b)
  case Nil
  then show ?case by simp
next
  case (Cons row rows)
  then have "\<forall>df md. snd (process_site dir (snd row) (fst row)) \<noteq> Inr (Some df, md)" by simp
  then have "batch_data (collect (snd (process_site dir (snd row) (fst row))) b) = batch_data b \<and>
             metadata_list (collect (snd (process_site dir (snd row) (fst row))) b) = metadata_list b"
    by (auto simp: collect_def split: sum.splits option.splits)
  with Cons show ?case by simp
qed

lemma collect_all_grows:
  "\<exists>more. batch_data (collect_all dir rows b) = batch_data b @ more"
proof (induction rows arbitrary: b)
  case Nil
  then show ?case by simp
next
  case (Cons row rows)
  have "\<exists>m. batch_data (collect (snd (process_site dir (snd row) (fst row))) b) = batch_data b @ m"
    by (auto simp: collect_def split: sum.splits option.splits)
  then obtain m where m: "batch_data (collect (snd (process_site dir (snd row) (fst row))) b) = batch_data b @ m"
    by blast
  from Cons[of "collect (snd (process_site dir (snd row) (fst row))) b"] obtain more where
    "batch_data (collect_all dir rows (collect (snd (process_site dir (snd row) (fst row))) b)) =
       batch_data (collect (snd (process_site dir (snd row) (fst row))) b) @ more" by blast
  with m show ?case by simp
qed

lemma collect_all_some:
  assumes "row \<in> set rows" and "snd (process_site dir (snd row) (fst row)) = Inr (Some df, md)"
  shows "batch_data (collect_all dir rows b) \<noteq> []"
proof -
  from assms(1) obtain xs ys where rows: "rows = xs @ row # ys" by (auto simp: in_set_conv_decomp)
  let ?b1 = "collect_all dir xs b"
  have "batch_data (collect (snd (process_site dir (snd row) (fst row))) ?b1) = batch_data ?b1 @ [df]"
    by (simp add: collect_def assms(2))
  moreover from collect_all_grows[of dir ys "collect (snd (process_site dir (snd row) (fst row))) ?b1"]
  obtain more where "batch_data (collect_all dir ys (collect (snd (process_site dir (snd row) (fst row))) ?b1)) =
      batch_data (collect (snd (process_site dir (snd row) (fst row))) ?b1) @ more" by blast
  ultimately show ?thesis by (simp add: rows collect_all_append)
qed


lemma example_site_B:
  "process_site example_directory (example_site ''B'') 1 =
     ([HandlingSite ''B'', ProcessingFile ''1719964800.B423'', ProcessingFile ''1720000000.B423'',
       ErrorProcessing ''1720000000.B423'' KeyError],
      Inl KeyError)"
proof -
  let ?g = "(''1719964800.B423'', good_file)" and ?e = "(''1720000000.B423'', empty_file)"
  let ?st0 = "initial_state [HandlingSite ''B'']"
  obtain df where df: "table_of (snd ?g) = Some df"
    using good_file_table by simp
  have dirB: "example_directory ''B'' = Some [?g, ?e]"
    by (simp add: example_directory_def)
  have hdr: "header_info (file_loop 1 [?g, ?e] ?st0) = Some Map.empty"
    by (simp add: empty_file_step)
  have lg: "site_log (file_loop 1 [?g, ?e] ?st0) =
      [HandlingSite ''B'', ProcessingFile ''1719964800.B423'', ProcessingFile ''1720000000.B423'',
       ErrorProcessing ''1720000000.B423'' KeyError]"
    by (simp add: empty_file_step file_step_Some[OF df] initial_state_def)
  show ?thesis
    using lg site_metadata_empty_header[OF hdr, of 1 "example_site ''B''"]
    by (simp add: process_site_def dirB example_site_def example_files_B Let_def)
qed

lemma example_site_E:
  "process_site example_directory (example_site ''E'') 4 = ([HandlingSite ''E''], Inl ValueError)"
  by (simp add: process_site_def example_directory_def example_site_def example_files_E)

lemma example_site_good:
  assumes "example_directory name = Some entries" and "binary_files entries = Inr files"
    and "files \<noteq> []" and "\<forall>e \<in> set files. snd e = good_file"
  shows "\<exists>rows md. snd (process_site example_directory (example_site name) sid) =
           Inr (Some rows, Some md)"
proof -
  obtain e es where files: "files = e # es" using assms(3) by (cases files) auto
  have "last files \<in> set files" using assms(3) by simp
  then have last: "read (snd (last files)) =
     metadata (Some 123) (DateTime 2024 7 3 0 0 0)
       [(''Ae2'', 1 / 4), (''Ke2'', 1), (''Ae1'', 0), (''Ke1'', 1), (''Az'', 0), (''Kmz'', 1),
        (''Ay'', 0), (''Kmy'', 2), (''Ax'', 1), (''Kmx'', 1 / 2)]
       (- (1397 / 40), 693 / 5, 211 / 2)"
    using assms(4) by (simp add: good_file_read)
  have name: "example_directory (SiteName (example_site name)) = Some entries"
    by (simp add: example_site_def assms(1))
  from process_site_ok[where dir = example_directory and info = "example_site name" and sid = sid,
      OF name assms(2,3) last] obtain md where
    md: "snd (process_site example_directory (example_site name) sid) =
           Inr (concat_or_none
                  (concat (map (\<lambda>e. case table_of (snd e) of None \<Rightarrow> []
                                       | Some df \<Rightarrow> [site_rows sid df]) files)),
                Some md)" by blast
  have "snd e = good_file" using assms(4) files by simp
  then have "concat (map (\<lambda>e. case table_of (snd e) of None \<Rightarrow> []
                                       | Some df \<Rightarrow> [site_rows sid df]) files) \<noteq> []"
    by (simp add: files good_file_table)
  then have "\<exists>rows. concat_or_none
                  (concat (map (\<lambda>e. case table_of (snd e) of None \<Rightarrow> []
                                       | Some df \<Rightarrow> [site_rows sid df]) files)) = Some rows"
    by (simp add: concat_or_none_def split: list.splits)
  with md show ?thesis by auto
qed

lemma example_site_A:
  "\<exists>rows md. snd (process_site example_directory (example_site ''A'') sid) = Inr (Some rows, Some md)"
  by (rule example_site_good[OF _ example_files_A]) (simp_all add: example_directory_def)

lemma example_files_F:
  "binary_files [(''1719964800.B423'', good_file)] = Inr [(''1719964800.B423'', good_file)]"
  by (simp add: binary_files_def sorted_by_def example_keys py_bind_def endswith_def)

lemma example_site_F:
  "\<exists>rows md. snd (process_site example_directory (example_site ''F'') sid) = Inr (Some rows, Some md)"
  by (rule example_site_good[OF _ example_files_F]) (simp_all add: example_directory_def)

section \<open>Proofs: an error of the last file leaves the site job\<close>

text \<open>
  Claim C3 says that no error of a single file leaves the site job.  Folder B of
  the example directory holds a good file and, after it in the order of
  processing, an empty file.  The header of the empty file cannot be parsed, so
  \<^verbatim>\<open>read\<close> returns the empty dictionary; the loop catches the KeyError of
  \<^verbatim>\<open>header_info["coefficients"]\<close> and goes on.  After the loop,
  \<^verbatim>\<open>header_info\<close> is still that empty dictionary,
  \<^verbatim>\<open>header_info["instrument_number"]\<close> raises KeyError outside any handler, and
  the site job ends with it: the orchestrator gets no table and no summary for
  the site, although its first file was processed.
\<close>

theorem C3_last_header_error_escapes:
  "table_of good_file \<noteq> None \<and>
   read empty_file = Map.empty \<and>
   example_directory ''B'' =
     Some [(''1719964800.B423'', good_file), (''1720000000.B423'', empty_file)] \<and>
   process_site example_directory (example_site ''B'') 1 =
     ([HandlingSite ''B'', ProcessingFile ''1719964800.B423'', ProcessingFile ''1720000000.B423'',
       ErrorProcessing ''1720000000.B423'' KeyError],
      Inl KeyError) \<and>
   process_all_sites example_directory (Some [(1, example_site ''B'')]) = (None, Some [])"
proof -
  have "process_all_sites example_directory (Some [(1, example_site ''B'')]) = (None, Some [])"
    by (simp add: process_all_sites_def example_site_B collect_def concat_or_none_def Let_def)
  moreover have "example_directory ''B'' =
     Some [(''1719964800.B423'', good_file), (''1720000000.B423'', empty_file)]"
    by (simp add: example_directory_def)
  ultimately show ?thesis
    by (simp add: example_site_B empty_file_read good_file_table)
qed

section \<open>Proofs: a site without data\<close>

text \<open>
  Claim C8.  A site whose folder does not exist, or whose folder has no entry
  ending in \<^verbatim>\<open>.B423\<close>, makes the site job log a warning and return the pair
  (None, None), without an exception.  The batch then returns what it would
  return without that row, whatever the other rows are.  In a batch of three
  sites of which two return a table and one returns (None, None), the metadata
  list has exactly the two summaries of the other two, wherever the third
  stands.
\<close>

theorem C8_missing_site:
  "(dir (SiteName info) = None \<longrightarrow>
      process_site dir info sid =
        ([HandlingSite (SiteName info), FolderNotFound (SiteName info)], Inr (None, None))) \<and>
   (dir (SiteName info) = Some entries \<and> (\<forall>e \<in> set entries. \<not> endswith (fst e) ''.B423'') \<longrightarrow>
      process_site dir info sid =
        ([HandlingSite (SiteName info), NoFilesFound (SiteName info)], Inr (None, None))) \<and>
   (snd (process_site dir info sid) = Inr (None, None) \<longrightarrow>
      process_all_sites dir (Some (rows1 @ (sid, info) # rows2)) =
      process_all_sites dir (Some (rows1 @ rows2))) \<and>
   (snd (process_site dir (snd a) (fst a)) = Inr (Some dfa, ma) \<and>
    snd (process_site dir (snd b) (fst b)) = Inr (None, None) \<and>
    snd (process_site dir (snd c) (fst c)) = Inr (Some dfc, mc) \<longrightarrow>
      snd (process_all_sites dir (Some [a, b, c])) = Some [ma, mc] \<and>
      snd (process_all_sites dir (Some [b, a, c])) = Some [ma, mc] \<and>
      snd (process_all_sites dir (Some [a, c, b])) = Some [ma, mc])"
proof (intro conjI impI)
  assume "dir (SiteName info) = None"
  then show "process_site dir info sid =
        ([HandlingSite (SiteName info), FolderNotFound (SiteName info)], Inr (None, None))"
    by (rule process_site_missing)
next
  assume "dir (SiteName info) = Some entries \<and> (\<forall>e \<in> set entries. \<not> endswith (fst e) ''.B423'')"
  then show "process_site dir info sid =
        ([HandlingSite (SiteName info), NoFilesFound (SiteName info)], Inr (None, None))"
    by (simp add: process_site_no_files)
next
  assume "snd (process_site dir info sid) = Inr (None, None)"
  then show "process_all_sites dir (Some (rows1 @ (sid, info) # rows2)) =
      process_all_sites dir (Some (rows1 @ rows2))"
    by (simp add: process_all_sites_def collect_all_skip)
next
  assume abc: "snd (process_site dir (snd a) (fst a)) = Inr (Some dfa, ma) \<and>
    snd (process_site dir (snd b) (fst b)) = Inr (None, None) \<and>
    snd (process_site dir (snd c) (fst c)) = Inr (Some dfc, mc)"
  then show "snd (process_all_sites dir (Some [a, b, c])) = Some [ma, mc]"
    by (simp add: process_all_sites_def collect_def Let_def)
  from abc show "snd (process_all_sites dir (Some [b, a, c])) = Some [ma, mc]"
    by (simp add: process_all_sites_def collect_def Let_def)
  from abc show "snd (process_all_sites dir (Some [a, c, b])) = Some [ma, mc]"
    by (simp add: process_all_sites_def collect_def Let_def)
qed

theorem C8_missing_site_witness:
  "process_site example_directory (example_site ''D'') 1 =
     ([HandlingSite ''D'', FolderNotFound ''D''], Inr (None, None)) \<and>
   process_site example_directory (example_site ''C'') 3 =
     ([HandlingSite ''C'', NoFilesFound ''C''], Inr (None, None)) \<and>
   process_all_sites example_directory
     (Some [(0, example_site ''A''), (1, example_site ''D''), (2, example_site ''F'')]) =
   process_all_sites example_directory (Some [(0, example_site ''A''), (2, example_site ''F'')]) \<and>
   map_option length
     (snd (process_all_sites example_directory
        (Some [(0, example_site ''A''), (1, example_site ''D''), (2, example_site ''F'')]))) = Some 2"
proof -
  let ?A = "(0 :: int, example_site ''A'')" and ?D = "(1 :: int, example_site ''D'')"
  let ?F = "(2 :: int, example_site ''F'')"
  have noD: "example_directory (SiteName (example_site ''D'')) = None"
    by (simp add: example_directory_def example_site_def)
  have dirC: "example_directory (SiteName (example_site ''C'')) = Some [(''readme.txt'', empty_file)] \<and>
      (\<forall>e \<in> set [(''readme.txt'', empty_file)]. \<not> endswith (fst e) ''.B423'')"
    by (simp add: example_directory_def example_site_def endswith_def)
  obtain dfa ma where a: "snd (process_site example_directory (snd ?A) (fst ?A)) = Inr (Some dfa, Some ma)"
    using example_site_A[of 0] by auto
  obtain dfc mc where c: "snd (process_site example_directory (snd ?F) (fst ?F)) = Inr (Some dfc, Some mc)"
    using example_site_F[of 2] by auto
  note thmD = C8_missing_site[of example_directory "example_site ''D''" 1 "[]" "[?A]" "[?F]"
      ?A dfa "Some ma" ?D ?F dfc "Some mc"]
  note thmC = C8_missing_site[of example_directory "example_site ''C''" 3 "[(''readme.txt'', empty_file)]"
      "[]" "[]" ?A dfa "Some ma" ?D ?F dfc "Some mc"]
  from thmD noD have 1: "process_site example_directory (example_site ''D'') 1 =
     ([HandlingSite (SiteName (example_site ''D'')), FolderNotFound (SiteName (example_site ''D''))],
      Inr (None, None))" by blast
  from thmC dirC have 2: "process_site example_directory (example_site ''C'') 3 =
     ([HandlingSite (SiteName (example_site ''C'')), NoFilesFound (SiteName (example_site ''C''))],
      Inr (None, None))" by blast
  from 1 have d: "snd (process_site example_directory (example_site ''D'') 1) = Inr (None, None)"
    by simp
  with thmD have 3: "process_all_sites example_directory (Some ([?A] @ ?D # [?F])) =
      process_all_sites example_directory (Some ([?A] @ [?F]))" by blast
  from d have "snd (process_site example_directory (snd ?D) (fst ?D)) = Inr (None, None)" by simp
  with thmD a c have 4: "snd (process_all_sites example_directory (Some [?A, ?D, ?F])) = Some [Some ma, Some mc]"
    by blast
  from 1 2 3 4 show ?thesis by (simp add: example_site_def)
qed

section \<open>Proofs: files with the example header\<close>

lemma example_header_lines:
  assumes "readable f"
    and "contents f = header_block (example_lines ''%Lat 3455.5000,S'') @ rest"
  shows "read_header f = example_lines ''%Lat 3455.5000,S'' @ [replicate 842 (CHR 0x00)]"
proof -
  have "read_header f =
        example_lines ''%Lat 3455.5000,S'' @
        [replicate (1024 - length (unlines (example_lines ''%Lat 3455.5000,S''))) (CHR 0x00)]"
    using assms by (rule read_header_block) (simp_all add: example_lines_plain example_lines_length)
  then show ?thesis by (simp add: example_lines_length)
qed

lemma example_header_read:
  assumes "readable f"
    and "contents f = header_block (example_lines ''%Lat 3455.5000,S'') @ rest"
  shows "read f =
     metadata (Some 123) (DateTime 2024 7 3 0 0 0)
       [(''Ae2'', 1 / 4), (''Ke2'', 1), (''Ae1'', 0), (''Ke1'', 1), (''Az'', 0), (''Kmz'', 1),
        (''Ay'', 0), (''Kmy'', 2), (''Ax'', 1), (''Kmx'', 1 / 2)]
       (- (1397 / 40), 693 / 5, 211 / 2)"
proof -
  have "read_header f \<noteq> []" by (simp add: example_header_lines[OF assms])
  then show ?thesis
    by (simp add: read_nonempty example_header_lines[OF assms] read_body_def good_lines_eval
          good_coordinates py_bind_def)
qed

lemma example_header_table:
  assumes "readable f"
    and "contents f = header_block (example_lines ''%Lat 3455.5000,S'') @ rest"
  shows "table_of f = Some (map (calibrated_row (1 / 2) 1 2 0 1 0 1 0 1 (1 / 4)) (fromfile rest))"
proof -
  let ?cs = "[(''Ae2'', 1 / 4), (''Ke2'', 1), (''Ae1'', 0), (''Ke1'', 1), (''Az'', 0), (''Kmz'', 1),
        (''Ay'', 0), (''Kmy'', 2), (''Ax'', 1), (''Kmx'', 1 / 2 :: real)]"
  let ?self = "\<lparr> data_file = f, data_coefficients = map_of ?cs, data = None \<rparr>"
  have c: "read f ''coefficients'' = Some (PyDict ?cs)"
    by (simp add: example_header_read[OF assms] metadata_def)
  have "length (header_block (example_lines ''%Lat 3455.5000,S'')) = 1024"
    by (rule length_header_block) (simp add: example_lines_length)
  then have d: "drop 1024 (contents f) = rest" by (simp add: assms(2))
  have "from_binary_body ?self =
     Inr (map (calibrated_row (1 / 2) 1 2 0 1 0 1 0 1 (1 / 4))
              (fromfile (drop 1024 (contents (data_file ?self)))))"
    by (rule from_binary_body_Inr) (simp_all add: assms(1))
  then have "fst (from_binary ?self) =
     Some (map (calibrated_row (1 / 2) 1 2 0 1 0 1 0 1 (1 / 4)) (fromfile rest))"
    by (simp add: from_binary_def d)
  then show ?thesis
    by (simp add: table_of_def c load_data_def)
qed

lemma shuffled_records_decoded:
  "fromfile shuffled_records =
     [\<lparr>time = 3, tick = 0, Bx = 0, By = 0, Bz = 0, Ex = 0, Ey = 0, sync = 0, stage = 0, CRC = 0\<rparr>,
      \<lparr>time = 0, tick = 500, Bx = 0, By = 0, Bz = 0, Ex = 0, Ey = 0, sync = 0, stage = 0, CRC = 0\<rparr>,
      \<lparr>time = 0, tick = 600, Bx = 0, By = 0, Bz = 0, Ex = 0, Ey = 0, sync = 0, stage = 0, CRC = 0\<rparr>]"
  by code_simp

lemma shuffled_file_table:
  "table_of shuffled_file =
     Some [\<lparr>index = 3000, tick_col = 0, Bx_cal = 1, By_cal = 0, Bz_cal = 0,
             Ex_cal = 0, Ey_cal = 1 / 4, sync_col = 0, stage_col = 0, CRC_col = 0\<rparr>,
           \<lparr>index = 500, tick_col = 500, Bx_cal = 1, By_cal = 0, Bz_cal = 0,
             Ex_cal = 0, Ey_cal = 1 / 4, sync_col = 0, stage_col = 0, CRC_col = 0\<rparr>,
           \<lparr>index = 600, tick_col = 600, Bx_cal = 1, By_cal = 0, Bz_cal = 0,
             Ex_cal = 0, Ey_cal = 1 / 4, sync_col = 0, stage_col = 0, CRC_col = 0\<rparr>]"
proof -
  have "table_of shuffled_file =
      Some (map (calibrated_row (1 / 2) 1 2 0 1 0 1 0 1 (1 / 4)) (fromfile shuffled_records))"
    by (rule example_header_table) (simp_all add: shuffled_file_def)
  then show ?thesis
    by (simp add: shuffled_records_decoded calibrated_row_def to_datetime_ms_def)
qed

lemma header_only_file_read:
  "read header_only_file =
     metadata (Some 123) (DateTime 2024 7 3 0 0 0)
       [(''Ae2'', 1 / 4), (''Ke2'', 1), (''Ae1'', 0), (''Ke1'', 1), (''Az'', 0), (''Kmz'', 1),
        (''Ay'', 0), (''Kmy'', 2), (''Ax'', 1), (''Kmx'', 1 / 2)]
       (- (1397 / 40), 693 / 5, 211 / 2)"
  by (rule example_header_read[where rest = "[]"]) (simp_all add: header_only_file_def)

lemma shuffled_file_read:
  "read shuffled_file =
     metadata (Some 123) (DateTime 2024 7 3 0 0 0)
       [(''Ae2'', 1 / 4), (''Ke2'', 1), (''Ae1'', 0), (''Ke1'', 1), (''Az'', 0), (''Kmz'', 1),
        (''Ay'', 0), (''Kmy'', 2), (''Ax'', 1), (''Kmx'', 1 / 2)]
       (- (1397 / 40), 693 / 5, 211 / 2)"
  by (rule example_header_read[where rest = shuffled_records]) (simp_all add: shuffled_file_def)

lemma fromfile_Nil: "fromfile [] = []"
  by code_simp

lemma header_only_file_table: "table_of header_only_file = Some []"
proof -
  have "table_of header_only_file =
      Some (map (calibrated_row (1 / 2) 1 2 0 1 0 1 0 1 (1 / 4)) (fromfile []))"
    by (rule example_header_table) (simp_all add: header_only_file_def)
  then show ?thesis by (simp add: fromfile_Nil)
qed

lemma metadata_nonempty: "metadata num dt cs pos \<noteq> Map.empty"
  by (metis metadata_not_empty)

section \<open>Proofs: the sample rate of the summary\<close>

lemma read_parsed:
  "read f \<noteq> Map.empty \<Longrightarrow> \<exists>num dt cs pos. read f = metadata num dt cs pos"
  using read_cases[of f] by blast

lemma concat_or_none_Some: "xs \<noteq> [] \<Longrightarrow> concat_or_none xs = Some (concat xs)"
  by (cases xs) (simp_all add: concat_or_none_def)

lemma tables_nonempty:
  "table_of (snd e) = Some df \<Longrightarrow> e \<in> set files \<Longrightarrow>
   concat (map (\<lambda>e. case table_of (snd e) of None \<Rightarrow> [] | Some df \<Rightarrow> [site_rows sid df]) files) \<noteq> []"
  by (induction files) (auto split: option.splits)

lemma process_site_returns:
  assumes "dir (SiteName info) = Some entries" and "binary_files entries = Inr files"
    and "e \<in> set files" and "table_of (snd e) = Some df"
    and "read (snd (last files)) \<noteq> Map.empty"
  shows "\<exists>rows md. snd (process_site dir info sid) = Inr (Some rows, Some md) \<and>
           Sample_Rate md =
             sample_rate (file_loop sid files (initial_state [HandlingSite (SiteName info)]))"
proof -
  let ?st = "file_loop sid files (initial_state [HandlingSite (SiteName info)])"
  have ne: "files \<noteq> []" using assms(3) by auto
  then obtain x xs where files: "files = x # xs" by (cases files) auto
  from read_parsed[OF assms(5)] obtain num dt cs pos where
    "read (snd (last files)) = metadata num dt cs pos" by blast
  then have "header_info ?st = Some (metadata num dt cs pos)"
    using file_loop_header[OF ne] by simp
  from site_metadata_ok[OF this] obtain md where md: "site_metadata sid info ?st = Inr md"
    by blast
  have sr: "Sample_Rate md = sample_rate ?st"
    using md by (auto simp: site_metadata_def py_bind_Inr_iff split: option.splits)
  have "all_data ?st \<noteq> []"
    using tables_nonempty[OF assms(4,3)] by (simp add: file_loop_all_data initial_state_def)
  then have "concat_or_none (all_data ?st) = Some (concat (all_data ?st))"
    by (rule concat_or_none_Some)
  then have "snd (process_site dir info sid) = Inr (Some (concat (all_data ?st)), Some md)"
    using assms(1,2) md files by (simp add: process_site_def Let_def)
  with sr show ?thesis by blast
qed

lemma file_loop_first_table:
  assumes "\<forall>e' \<in> set before. table_of (snd e') = None" and "table_of (snd e) = Some df"
  shows "sample_rate (file_loop sid (before @ e # after) (initial_state l)) = Some (first_second df)"
proof -
  have "sample_rate (initial_state l) = None" by (simp add: initial_state_def)
  then show ?thesis using assms by (intro file_loop_sample_rate_first) simp_all
qed

lemma process_site_sample_rate:
  assumes "dir (SiteName info) = Some entries"
    and "binary_files entries = Inr (before @ e # after)"
    and "\<forall>e' \<in> set before. table_of (snd e') = None"
    and "table_of (snd e) = Some df"
    and "read (snd (last (e # after))) \<noteq> Map.empty"
  shows "\<exists>rows md. snd (process_site dir info sid) = Inr (Some rows, Some md) \<and>
           Sample_Rate md = Some (first_second df)"
proof -
  have l: "read (snd (last (before @ e # after))) \<noteq> Map.empty"
    using assms(5) by simp
  have m: "e \<in> set (before @ e # after)" by simp
  from process_site_returns[where dir = dir and info = info and sid = sid
      and files = "before @ e # after" and e = e and df = df, OF assms(1,2) m assms(4) l]
  obtain rows md where
    "snd (process_site dir info sid) = Inr (Some rows, Some md)"
    "Sample_Rate md =
       sample_rate (file_loop sid (before @ e # after) (initial_state [HandlingSite (SiteName info)]))"
    by blast
  then show ?thesis using file_loop_first_table[OF assms(3,4)] by simp
qed

lemma first_second_Nil: "first_second [] = 0"
  by (simp add: first_second_def index_min_def)

lemma spec_first_second_sorted:
  assumes "sorted (map index df)"
  shows "first_second df = spec_first_second df"
proof (cases df)
  case Nil
  then show ?thesis by (simp add: first_second_Nil spec_first_second_def)
next
  case (Cons r rs)
  then have ne: "df \<noteq> []" by simp
  have m: "Min (set (map index df)) = index r"
    using sorted_Min_hd[OF ne assms] Cons by simp
  have "first_second df = length (filter (\<lambda>x. \<bar>index x - Min (set (map index df))\<bar> < 1000) df)"
    using first_second_Min[OF ne] within_second[OF ne] by metis
  then have "first_second df = length (filter (\<lambda>x. \<bar>index x - index r\<bar> < 1000) df)"
    by (simp only: m)
  moreover have "spec_first_second df = length (filter (\<lambda>x. \<bar>index x - index r\<bar> < 1000) df)"
    unfolding Cons by (simp add: spec_first_second_def)
  ultimately show ?thesis by simp
qed

lemma example_files_H:
  "binary_files [(''1719964800.B423'', shuffled_file)] = Inr [(''1719964800.B423'', shuffled_file)]"
  by (simp add: binary_files_def sorted_by_def example_keys py_bind_def endswith_def)


lemma late_key: "file_key ''1720035200.B423'' = Inr 1720035200"
  by (simp add: key_eval)

lemma example_files_G:
  "binary_files [(''1719964800.B423'', empty_file), (''1720000000.B423'', good_file),
                 (''1720035200.B423'', header_only_file)] =
     Inr [(''1719964800.B423'', empty_file), (''1720000000.B423'', good_file),
          (''1720035200.B423'', header_only_file)]"
  by (simp add: binary_files_def sorted_by_def example_keys late_key py_bind_def endswith_def)

lemma shuffled_first_second:
  "first_second
     [\<lparr>index = 3000, tick_col = 0, Bx_cal = 1, By_cal = 0, Bz_cal = 0,
             Ex_cal = 0, Ey_cal = 1 / 4, sync_col = 0, stage_col = 0, CRC_col = 0\<rparr>,
           \<lparr>index = 500, tick_col = 500, Bx_cal = 1, By_cal = 0, Bz_cal = 0,
             Ex_cal = 0, Ey_cal = 1 / 4, sync_col = 0, stage_col = 0, CRC_col = 0\<rparr>,
           \<lparr>index = 600, tick_col = 600, Bx_cal = 1, By_cal = 0, Bz_cal = 0,
             Ex_cal = 0, Ey_cal = 1 / 4, sync_col = 0, stage_col = 0, CRC_col = 0\<rparr>] = 2"
  by (simp add: first_second_def index_min_def)

lemma example_site_H:
  "map_option Sample_Rate (returned_summary (snd (process_site shuffled_directory (example_site ''H'') 0))) =
     Some (Some 2)"
proof -
  let ?e = "(''1719964800.B423'', shuffled_file)"
  have d: "shuffled_directory (SiteName (example_site ''H'')) = Some [?e]"
    by (simp add: shuffled_directory_def example_site_def)
  have b: "binary_files [?e] = Inr ([] @ ?e # [])" by (simp add: example_files_H)
  have n: "\<forall>e' \<in> set []. table_of (snd e') = None" by simp
  have t: "table_of (snd ?e) = Some (the (table_of shuffled_file))"
    by (simp add: shuffled_file_table)
  have r: "read (snd (last (?e # []))) \<noteq> Map.empty"
    by (simp add: shuffled_file_read metadata_nonempty)
  from process_site_sample_rate[where dir = shuffled_directory and info = "example_site ''H''"
      and sid = 0 and before = "[]" and e = ?e and after = "[]", OF d b n t r]
  obtain rows md where
    "snd (process_site shuffled_directory (example_site ''H'') 0) = Inr (Some rows, Some md)"
    "Sample_Rate md = Some (first_second (the (table_of shuffled_file)))" by blast
  then show ?thesis
    by (simp add: returned_summary_def shuffled_file_table shuffled_first_second)
qed

text \<open>
  Claim C7 counts the rows within one second of the first timestamp of the
  file.  The source counts the rows that are less than one second after the
  earliest timestamp of the file, \<^verbatim>\<open>df.index.min()\<close>.  The only file of folder H
  has three records, stamped 3.000 s, 0.500 s and 0.600 s in that order: one row
  is within one second of the timestamp of the first row, and the summary that
  the site job returns has the sample rate 2.  Folder B of the example directory
  has a good first file and an empty last file: the site job ends with KeyError
  and returns no summary, hence no sample rate, although its first file was
  processed.
\<close>

theorem C7_counterexample:
  "map_option (map index) (table_of shuffled_file) = Some [3000, 500, 600] \<and>
   map_option spec_first_second (table_of shuffled_file) = Some 1 \<and>
   map_option first_second (table_of shuffled_file) = Some 2 \<and>
   map_option Sample_Rate
     (returned_summary (snd (process_site shuffled_directory (example_site ''H'') 0))) =
     Some (Some 2) \<and>
   map_option length (table_of good_file) = Some 3 \<and>
   returned_summary (snd (process_site example_directory (example_site ''B'') 1)) = None"
  using example_site_H
  by (simp add: shuffled_file_table shuffled_first_second spec_first_second_def
        good_file_table example_site_B returned_summary_def)

text \<open>
  Claim C7, amended.  Let a file of the site yield a table while every file
  before it in the order of processing yields none, and let the header of the
  last file of the site parse.  Then the site job returns a table and a summary,
  and the \<open>Sample_Rate\<close> of the summary is the number of rows of that first table
  whose timestamp is less than one second after the earliest timestamp of the
  table, 0 for a table without rows.  The variable of the loop has that value
  after the loop whatever files come later, whether their headers parse or not.
  When the rows of the table are in chronological order, the number is the one
  of the claim: the rows within one second of the timestamp of the first row.
\<close>

theorem C7_sample_rate:
  assumes "dir (SiteName info) = Some entries"
    and "binary_files entries = Inr (before @ e # after)"
    and "\<forall>e' \<in> set before. table_of (snd e') = None"
    and "table_of (snd e) = Some df"
    and "read (snd (last (e # after))) \<noteq> Map.empty"
  shows "(\<exists>rows md. snd (process_site dir info sid) = Inr (Some rows, Some md) \<and>
            Sample_Rate md = Some (first_second df)) \<and>
         sample_rate (file_loop sid (before @ e # later) (initial_state l)) = Some (first_second df) \<and>
         first_second df =
           (if df = [] then 0
            else length (filter (\<lambda>r. index r < Min (set (map index df)) + 1000) df)) \<and>
         (sorted (map index df) \<longrightarrow> first_second df = spec_first_second df)"
proof (intro conjI impI)
  show "\<exists>rows md. snd (process_site dir info sid) = Inr (Some rows, Some md) \<and>
            Sample_Rate md = Some (first_second df)"
    using assms by (rule process_site_sample_rate)
  show "sample_rate (file_loop sid (before @ e # later) (initial_state l)) = Some (first_second df)"
    using assms(3,4) by (rule file_loop_first_table)
  show "first_second df =
           (if df = [] then 0
            else length (filter (\<lambda>r. index r < Min (set (map index df)) + 1000) df))"
    by (simp add: first_second_Nil first_second_Min)
  assume "sorted (map index df)"
  then show "first_second df = spec_first_second df" by (rule spec_first_second_sorted)
qed


theorem C7_sample_rate_witness:
  "map_option Sample_Rate
     (returned_summary (snd (process_site late_directory (example_site ''G'') 0))) = Some (Some 2) \<and>
   sample_rate (file_loop 0 [(''1719964800.B423'', empty_file), (''1720000000.B423'', good_file),
                             (''1720035200.B423'', header_only_file)] (initial_state [])) = Some 2 \<and>
   table_of empty_file = None \<and>
   map_option first_second (table_of good_file) = Some 2 \<and>
   map_option spec_first_second (table_of good_file) = Some 2 \<and>
   map_option length (table_of good_file) = Some 3 \<and>
   map_option first_second (table_of header_only_file) = Some 0"
proof -
  let ?x = "(''1719964800.B423'', empty_file)" and ?g = "(''1720000000.B423'', good_file)"
  let ?h = "(''1720035200.B423'', header_only_file)"
  obtain df where df: "table_of good_file = Some df" and fs: "first_second df = 2"
    and len: "length df = 3" and srt: "sorted (map index df)"
    using good_file_table good_first_second by simp
  have d: "late_directory (SiteName (example_site ''G'')) = Some [?x, ?g, ?h]"
    by (simp add: late_directory_def example_site_def)
  have b: "binary_files [?x, ?g, ?h] = Inr ([?x] @ ?g # [?h])" by (simp add: example_files_G)
  have n: "\<forall>e' \<in> set [?x]. table_of (snd e') = None" by (simp add: empty_file_table)
  have t: "table_of (snd ?g) = Some df" by (simp add: df)
  have r: "read (snd (last (?g # [?h]))) \<noteq> Map.empty"
    by (simp add: header_only_file_read metadata_nonempty)
  note inst = C7_sample_rate[where dir = late_directory and info = "example_site ''G''"
      and sid = 0 and before = "[?x]" and e = ?g and after = "[?h]" and later = "[?h]"
      and l = "[]", OF d b n t r]
  from inst obtain rows md where
    "snd (process_site late_directory (example_site ''G'') 0) = Inr (Some rows, Some md)"
    "Sample_Rate md = Some (first_second df)" by blast
  then have 1: "map_option Sample_Rate
     (returned_summary (snd (process_site late_directory (example_site ''G'') 0))) = Some (Some 2)"
    by (simp add: returned_summary_def fs)
  from inst have 2: "sample_rate (file_loop 0 ([?x] @ ?g # [?h]) (initial_state [])) = Some 2"
    by (simp only: fs)
  from inst srt have "first_second df = spec_first_second df" by blast
  then have 3: "spec_first_second df = 2" by (simp add: fs)
  have 4: "map_option first_second (table_of header_only_file) = Some 0"
    by (simp add: header_only_file_table first_second_Nil)
  from 1 2 3 4 show ?thesis by (simp add: df fs len empty_file_table)
qed

section \<open>Proofs: a batch without data\<close>





end
